theory Spec2Isabelle
  imports Main "HOL-Library.Word" "HOL-Library.Sublist"
begin

text \<open>
  A model of the plugin SDK: \<open>ProtobufHelper\<close>, \<open>PluginServer\<close> and \<open>PluginMain\<close> of
  \<^verbatim>\<open>src/unnamed/part_000\<close>, and the example contract \<open>MyCustomPlugin\<close> of
  \<^verbatim>\<open>src/unnamed/part_001\<close>. The functions of the JavaScript runtime that the source
  calls are modelled first: those whose result a statement depends on are written out
  (UTF-8, \<open>String.prototype.includes\<close>, \<open>JSON.stringify\<close>, \<open>parseInt\<close>); the
  operations on numbers, \<open>JSON.parse\<close> and the case mappings are parameters.
\<close>

section \<open>Strings and byte buffers\<close>

text \<open>
  A JavaScript string is a sequence of 16-bit code units; a \<open>Buffer\<close> is a sequence of
  bytes. String literals of the source are written with \<open>lit\<close>, which maps every character
  of an ASCII literal to its code unit.
\<close>

type_synonym code_unit = "16 word"
type_synonym jsstring = "code_unit list"
type_synonym byte = "8 word"

definition lit :: "string \<Rightarrow> jsstring" where
  "lit s = map (\<lambda>c. of_nat (of_char c)) s"

text \<open>\<open>String.prototype.includes\<close>: does \<open>t\<close> occur in \<open>s\<close> as a run of code units?\<close>

fun str_includes :: "jsstring \<Rightarrow> jsstring \<Rightarrow> bool" where
  "str_includes [] t = (t = [])"
| "str_includes (x # xs) t = (prefix t (x # xs) \<or> str_includes xs t)"

text \<open>\<open>Array.prototype.join\<close> on an array of strings.\<close>

fun join :: "jsstring \<Rightarrow> jsstring list \<Rightarrow> jsstring" where
  "join sep [] = []"
| "join sep [x] = x"
| "join sep (x # y # ys) = x @ sep @ join sep (y # ys)"

subsection \<open>UTF-8: \<open>Buffer.from(s, "utf8")\<close> and \<open>buf.toString("utf8")\<close>\<close>

definition is_high_surrogate :: "code_unit \<Rightarrow> bool" where
  "is_high_surrogate u = (0xD800 \<le> unat u \<and> unat u \<le> 0xDBFF)"

definition is_low_surrogate :: "code_unit \<Rightarrow> bool" where
  "is_low_surrogate u = (0xDC00 \<le> unat u \<and> unat u \<le> 0xDFFF)"

definition is_surrogate :: "code_unit \<Rightarrow> bool" where
  "is_surrogate u = (0xD800 \<le> unat u \<and> unat u \<le> 0xDFFF)"

text \<open>The UTF-8 bytes of one code point (below \<open>0x110000\<close>).\<close>

definition encode_code_point :: "nat \<Rightarrow> byte list" where
  "encode_code_point cp =
     (if cp < 0x80 then [of_nat cp]
      else if cp < 0x800 then [of_nat (0xC0 + cp div 0x40), of_nat (0x80 + cp mod 0x40)]
      else if cp < 0x10000 then
        [of_nat (0xE0 + cp div 0x1000), of_nat (0x80 + cp div 0x40 mod 0x40),
         of_nat (0x80 + cp mod 0x40)]
      else
        [of_nat (0xF0 + cp div 0x40000), of_nat (0x80 + cp div 0x1000 mod 0x40),
         of_nat (0x80 + cp div 0x40 mod 0x40), of_nat (0x80 + cp mod 0x40)])"

text \<open>The code point of a surrogate pair.\<close>

definition pair_code_point :: "code_unit \<Rightarrow> code_unit \<Rightarrow> nat" where
  "pair_code_point hi lo = 0x10000 + (unat hi - 0xD800) * 0x400 + (unat lo - 0xDC00)"

text \<open>
  Encoding a string: a surrogate pair is one code point of four bytes; a surrogate that
  is not part of a pair is replaced by U+FFFD, whose bytes are \<open>EF BF BD\<close>.
\<close>

fun utf8_encode :: "jsstring \<Rightarrow> byte list" where
  "utf8_encode [] = []"
| "utf8_encode [u] =
     (if is_surrogate u then [0xEF, 0xBF, 0xBD] else encode_code_point (unat u))"
| "utf8_encode (u # v # rest) =
     (if is_high_surrogate u \<and> is_low_surrogate v
        then encode_code_point (pair_code_point u v) @ utf8_encode rest
      else if is_surrogate u then [0xEF, 0xBF, 0xBD] @ utf8_encode (v # rest)
      else encode_code_point (unat u) @ utf8_encode (v # rest))"

text \<open>The code units of one decoded code point.\<close>

definition code_units_of :: "nat \<Rightarrow> jsstring" where
  "code_units_of cp =
     (if cp < 0x10000 then [of_nat cp]
      else [of_nat (0xD800 + (cp - 0x10000) div 0x400),
            of_nat (0xDC00 + (cp - 0x10000) mod 0x400)])"

definition in_range :: "nat \<Rightarrow> nat \<Rightarrow> byte \<Rightarrow> bool" where
  "in_range lo hi b = (lo \<le> unat b \<and> unat b \<le> hi)"

text \<open>
  Decoding bytes: a lead byte fixes how many continuation bytes follow and the range of
  the first one (which excludes overlong forms, surrogates and code points above
  \<open>0x10FFFF\<close>); a byte that cannot start or continue a sequence ends the sequence read
  so far, which becomes one U+FFFD, and is then read again as a first byte. No byte
  order mark is removed.
\<close>

fun utf8_decode :: "byte list \<Rightarrow> jsstring" where
  "utf8_decode [] = []"
| "utf8_decode (b # bs) =
     (if unat b < 0x80 then of_nat (unat b) # utf8_decode bs
      else if in_range 0xC2 0xDF b then
        (case bs of
           [] \<Rightarrow> [0xFFFD]
         | c # cs \<Rightarrow>
             if in_range 0x80 0xBF c
               then code_units_of ((unat b - 0xC0) * 0x40 + (unat c - 0x80)) @ utf8_decode cs
             else 0xFFFD # utf8_decode bs)
      else if in_range 0xE0 0xEF b then
        (case bs of
           [] \<Rightarrow> [0xFFFD]
         | c # cs \<Rightarrow>
             if in_range (if unat b = 0xE0 then 0xA0 else 0x80)
                         (if unat b = 0xED then 0x9F else 0xBF) c
               then (case cs of
                       [] \<Rightarrow> [0xFFFD]
                     | d # ds \<Rightarrow>
                         if in_range 0x80 0xBF d
                           then code_units_of ((unat b - 0xE0) * 0x1000
                                  + (unat c - 0x80) * 0x40 + (unat d - 0x80)) @ utf8_decode ds
                         else 0xFFFD # utf8_decode cs)
             else 0xFFFD # utf8_decode bs)
      else if in_range 0xF0 0xF4 b then
        (case bs of
           [] \<Rightarrow> [0xFFFD]
         | c # cs \<Rightarrow>
             if in_range (if unat b = 0xF0 then 0x90 else 0x80)
                         (if unat b = 0xF4 then 0x8F else 0xBF) c
               then (case cs of
                       [] \<Rightarrow> [0xFFFD]
                     | d # ds \<Rightarrow>
                         if in_range 0x80 0xBF d
                           then (case ds of
                                   [] \<Rightarrow> [0xFFFD]
                                 | e # es \<Rightarrow>
                                     if in_range 0x80 0xBF e
                                       then code_units_of ((unat b - 0xF0) * 0x40000
                                              + (unat c - 0x80) * 0x1000
                                              + (unat d - 0x80) * 0x40 + (unat e - 0x80))
                                            @ utf8_decode es
                                     else 0xFFFD # utf8_decode ds)
                         else 0xFFFD # utf8_decode cs)
             else 0xFFFD # utf8_decode bs)
      else 0xFFFD # utf8_decode bs)"


declare utf8_decode.simps(2) [simp del]

text \<open>
  A string is well formed when every surrogate in it belongs to a pair (a high surrogate
  directly followed by a low one), read from the left as the encoder reads it.
\<close>

fun well_formed :: "jsstring \<Rightarrow> bool" where
  "well_formed [] = True"
| "well_formed [u] = (\<not> is_surrogate u)"
| "well_formed (u # v # rest) =
     (if is_high_surrogate u \<and> is_low_surrogate v then well_formed rest
      else \<not> is_surrogate u \<and> well_formed (v # rest))"

section \<open>Values, errors and the runtime\<close>

text \<open>
  The values that reach the codec: \<open>undefined\<close>, \<open>null\<close>, booleans, numbers, strings,
  arrays and plain objects (no functions, symbols, big integers, or objects with a
  \<open>toJSON\<close> method). A value is a tree, so it has no cycle. An object is the list of its
  own enumerable properties in enumeration order. The type \<open>'n\<close> stands for the
  runtime's numbers (IEEE doubles), which are not modelled: every operation on them is a
  field of \<open>runtime\<close> below.
\<close>

datatype 'n jsval =
    JUndefined
  | JNull
  | JBool bool
  | JNum 'n
  | JStr jsstring
  | JArr "'n jsval list"
  | JObj "(jsstring \<times> 'n jsval) list"

text \<open>
  A thrown value: an instance of \<open>Error\<close> with its \<open>message\<close>, or any other value.
\<close>

datatype 'n thrown = ErrorObject jsstring | NonError "'n jsval"

text \<open>
  The operations of the JavaScript runtime that the source calls and that are taken as
  parameters: the text of a number (\<open>Number.prototype.toString\<close>, always ASCII),
  \<open>isFinite\<close>, the truthiness of a number, the number of a mathematical integer,
  \<open>NaN\<close>, \<open>parseFloat\<close>, \<open>JSON.parse\<close> (which throws on malformed text), and the
  two case mappings of \<open>String.prototype\<close>.
\<close>

record 'n runtime =
  num_toString :: "'n \<Rightarrow> string"
  num_isFinite :: "'n \<Rightarrow> bool"
  num_truthy :: "'n \<Rightarrow> bool"
  num_of_int :: "int \<Rightarrow> 'n"
  num_NaN :: "'n"
  parseFloat :: "jsstring \<Rightarrow> 'n"
  JSON_parse :: "jsstring \<Rightarrow> 'n thrown + 'n jsval"
  toUpperCase :: "jsstring \<Rightarrow> jsstring"
  toLowerCase :: "jsstring \<Rightarrow> jsstring"

subsection \<open>\<open>JSON.stringify\<close>\<close>

definition hex_digit :: "nat \<Rightarrow> code_unit" where
  "hex_digit d = (if d < 10 then of_nat (0x30 + d) else of_nat (0x57 + d))"

text \<open>\<open>\uXXXX\<close> with four lowercase hexadecimal digits.\<close>

definition unicode_escape :: "code_unit \<Rightarrow> jsstring" where
  "unicode_escape u =
     [0x5C, 0x75, hex_digit (unat u div 0x1000), hex_digit (unat u div 0x100 mod 0x10),
      hex_digit (unat u div 0x10 mod 0x10), hex_digit (unat u mod 0x10)]"

text \<open>
  One code unit inside a JSON string: the short escapes for backspace, tab, line feed,
  form feed, carriage return, the double quote and the backslash; \<open>\uXXXX\<close> for the other
  control characters and for a surrogate without its partner; the unit itself otherwise.
\<close>

definition quote_unit :: "code_unit \<Rightarrow> jsstring" where
  "quote_unit u =
     (if u = 0x08 then [0x5C, 0x62]
      else if u = 0x09 then [0x5C, 0x74]
      else if u = 0x0A then [0x5C, 0x6E]
      else if u = 0x0C then [0x5C, 0x66]
      else if u = 0x0D then [0x5C, 0x72]
      else if u = 0x22 then [0x5C, 0x22]
      else if u = 0x5C then [0x5C, 0x5C]
      else if unat u < 0x20 \<or> is_surrogate u then unicode_escape u
      else [u])"

fun quote_units :: "jsstring \<Rightarrow> jsstring" where
  "quote_units [] = []"
| "quote_units [u] = quote_unit u"
| "quote_units (u # v # rest) =
     (if is_high_surrogate u \<and> is_low_surrogate v then u # v # quote_units rest
      else quote_unit u @ quote_units (v # rest))"

definition QuoteJSONString :: "jsstring \<Rightarrow> jsstring" where
  "QuoteJSONString s = [0x22] @ quote_units s @ [0x22]"

text \<open>
  The brackets around the serialized members of an array or object: nothing between the
  brackets when there is no member; members separated by a comma when \<open>gap\<close> is empty;
  otherwise one member per line, indented by \<open>indent\<close> (the enclosing indentation
  \<open>stepback\<close> extended by \<open>gap\<close>).
\<close>

definition wrap_members ::
  "code_unit \<Rightarrow> code_unit \<Rightarrow> jsstring \<Rightarrow> jsstring \<Rightarrow> jsstring list \<Rightarrow> jsstring" where
  "wrap_members opening closing gap stepback partial =
     (let indent = stepback @ gap in
      if partial = [] then [opening, closing]
      else if gap = [] then [opening] @ join [0x2C] partial @ [closing]
      else [opening, 0x0A] @ indent @ join ([0x2C, 0x0A] @ indent) partial
             @ [0x0A] @ stepback @ [closing])"

text \<open>
  \<open>SerializeJSONProperty\<close>, with no replacer: \<open>None\<close> is the result \<open>undefined\<close>. A number
  that is not finite is written \<open>null\<close>; an array element without serialization is
  written \<open>null\<close>; an object property without serialization is left out.
\<close>

fun SerializeJSONProperty ::
      "'n runtime \<Rightarrow> jsstring \<Rightarrow> jsstring \<Rightarrow> 'n jsval \<Rightarrow> jsstring option"
  and SerializeJSONArray ::
      "'n runtime \<Rightarrow> jsstring \<Rightarrow> jsstring \<Rightarrow> 'n jsval list \<Rightarrow> jsstring list"
  and SerializeJSONObject ::
      "'n runtime \<Rightarrow> jsstring \<Rightarrow> jsstring \<Rightarrow> (jsstring \<times> 'n jsval) list \<Rightarrow> jsstring list"
where
  "SerializeJSONProperty rt gap stepback JUndefined = None"
| "SerializeJSONProperty rt gap stepback JNull = Some (lit ''null'')"
| "SerializeJSONProperty rt gap stepback (JBool b) =
     Some (if b then lit ''true'' else lit ''false'')"
| "SerializeJSONProperty rt gap stepback (JNum n) =
     Some (if num_isFinite rt n then lit (num_toString rt n) else lit ''null'')"
| "SerializeJSONProperty rt gap stepback (JStr s) = Some (QuoteJSONString s)"
| "SerializeJSONProperty rt gap stepback (JArr xs) =
     Some (wrap_members 0x5B 0x5D gap stepback
             (SerializeJSONArray rt gap (stepback @ gap) xs))"
| "SerializeJSONProperty rt gap stepback (JObj ps) =
     Some (wrap_members 0x7B 0x7D gap stepback
             (SerializeJSONObject rt gap (stepback @ gap) ps))"
| "SerializeJSONArray rt gap indent [] = []"
| "SerializeJSONArray rt gap indent (x # xs) =
     (case SerializeJSONProperty rt gap indent x of
        None \<Rightarrow> lit ''null''
      | Some str \<Rightarrow> str) # SerializeJSONArray rt gap indent xs"
| "SerializeJSONObject rt gap indent [] = []"
| "SerializeJSONObject rt gap indent ((k, v) # ps) =
     (case SerializeJSONProperty rt gap indent v of
        None \<Rightarrow> SerializeJSONObject rt gap indent ps
      | Some str \<Rightarrow>
          (QuoteJSONString k @ [0x3A] @ (if gap = [] then [] else [0x20]) @ str)
            # SerializeJSONObject rt gap indent ps)"

text \<open>\<open>JSON.stringify(value)\<close> and \<open>JSON.stringify(value, null, 2)\<close>.\<close>

definition JSON_stringify :: "'n runtime \<Rightarrow> 'n jsval \<Rightarrow> jsstring option" where
  "JSON_stringify rt v = SerializeJSONProperty rt [] [] v"

definition JSON_stringify_2 :: "'n runtime \<Rightarrow> 'n jsval \<Rightarrow> jsstring option" where
  "JSON_stringify_2 rt v = SerializeJSONProperty rt [0x20, 0x20] [] v"


section \<open>\<open>ProtobufHelper\<close>: packing and unpacking \<open>Any\<close>\<close>

text \<open>
  A protobuf \<open>Any\<close> message: the type URL (\<open>getTypeUrl\<close>, \<open>setTypeUrl\<close>) and the value
  bytes (\<open>getValue_asU8\<close>, \<open>setValue\<close>).
\<close>

record Any =
  any_typeUrl :: jsstring
  any_value :: "byte list"

definition StringValue_url :: jsstring where
  "StringValue_url = lit ''type.googleapis.com/google.protobuf.StringValue''"

definition DoubleValue_url :: jsstring where
  "DoubleValue_url = lit ''type.googleapis.com/google.protobuf.DoubleValue''"

definition BoolValue_url :: jsstring where
  "BoolValue_url = lit ''type.googleapis.com/google.protobuf.BoolValue''"

definition Struct_url :: jsstring where
  "Struct_url = lit ''type.googleapis.com/google.protobuf.Struct''"

text \<open>
  \<open>typeUrl || dflt\<close>, where the optional argument \<open>typeUrl\<close> is \<open>undefined\<close> (\<open>None\<close>) or a
  string: the empty string is falsy, as \<open>undefined\<close> is.
\<close>

definition or_default :: "jsstring option \<Rightarrow> jsstring \<Rightarrow> jsstring" where
  "or_default typeUrl dflt =
     (case typeUrl of None \<Rightarrow> dflt | Some u \<Rightarrow> if u = [] then dflt else u)"

text \<open>
  The \<open>TypeError\<close> of \<open>Buffer.from\<close> when its first argument is \<open>undefined\<close>, which is
  what \<open>JSON.stringify\<close> returns for a value without serialization.
\<close>

definition Buffer_from_undefined :: "'n thrown" where
  "Buffer_from_undefined = ErrorObject (lit (''The first argument must be of type string or an ''
     @ ''instance of Buffer, ArrayBuffer, or Array or an Array-like Object. Received undefined''))"

text \<open>
  \<open>ProtobufHelper.packAny(value, typeUrl)\<close> (part_000, lines 164 to 189): the branches
  on \<open>typeof value\<close>, in the order of the source.
\<close>

definition packAny :: "'n runtime \<Rightarrow> 'n jsval \<Rightarrow> jsstring option \<Rightarrow> 'n thrown + Any" where
  "packAny rt v typeUrl =
     (case v of
        JStr s \<Rightarrow>
          Inr \<lparr>any_typeUrl = or_default typeUrl StringValue_url, any_value = utf8_encode s\<rparr>
      | JNum n \<Rightarrow>
          Inr \<lparr>any_typeUrl = or_default typeUrl DoubleValue_url,
               any_value = utf8_encode (lit (num_toString rt n))\<rparr>
      | JBool b \<Rightarrow>
          Inr \<lparr>any_typeUrl = or_default typeUrl BoolValue_url,
               any_value = utf8_encode (if b then lit ''true'' else lit ''false'')\<rparr>
      | _ \<Rightarrow>
          (case JSON_stringify rt v of
             None \<Rightarrow> Inl Buffer_from_undefined
           | Some text \<Rightarrow>
               Inr \<lparr>any_typeUrl = or_default typeUrl Struct_url,
                    any_value = utf8_encode text\<rparr>))"

text \<open>\<open>ProtobufHelper.unpackAny(any)\<close> (part_000, lines 198 to 214).\<close>

definition unpackAny :: "'n runtime \<Rightarrow> Any \<Rightarrow> 'n thrown + 'n jsval" where
  "unpackAny rt a =
     (let val = utf8_decode (any_value a);
          typeUrl = any_typeUrl a
      in if str_includes typeUrl (lit ''StringValue'') then Inr (JStr val)
         else if str_includes typeUrl (lit ''DoubleValue'') then Inr (JNum (parseFloat rt val))
         else if str_includes typeUrl (lit ''BoolValue'') then Inr (JBool (val = lit ''true''))
         else if str_includes typeUrl (lit ''Struct'') then JSON_parse rt val
         else Inr (JStr val))"

section \<open>The example contract \<open>MyCustomPlugin\<close>\<close>

text \<open>
  The request as the handler reads it: \<open>args\<close> and \<open>options\<close> may be missing (the source
  reads them as \<open>request.args || {}\<close>), and are otherwise the entries of the map in
  enumeration order.
\<close>

record ExecutionRequestBody =
  args :: "(jsstring \<times> Any) list option"
  options :: "(jsstring \<times> Any) list option"
  input :: jsstring

record ExecutionResponse =
  result :: jsstring

text \<open>How a promise ends: resolved, rejected (or a synchronous throw), or never settled.\<close>

datatype ('a, 'e) promise = Resolved 'a | Rejected 'e | Pending

text \<open>
  An object built by the handler with \<open>{}\<close> and \<open>obj[key] = v\<close>: its own properties, and
  its prototype when an assignment has replaced \<open>Object.prototype\<close>.
\<close>

record 'n jsobject =
  own :: "(jsstring \<times> 'n jsval) list"
  proto :: "'n jsval option"

definition empty_object :: "'n jsobject" where
  "empty_object = \<lparr>own = [], proto = None\<rparr>"

fun set_own :: "jsstring \<Rightarrow> 'n jsval \<Rightarrow> (jsstring \<times> 'n jsval) list \<Rightarrow> (jsstring \<times> 'n jsval) list"
where
  "set_own k v [] = [(k, v)]"
| "set_own k v ((k', v') # ps) = (if k = k' then (k, v) # ps else (k', v') # set_own k v ps)"

fun is_object_or_null :: "'n jsval \<Rightarrow> bool" where
  "is_object_or_null JNull = True"
| "is_object_or_null (JArr xs) = True"
| "is_object_or_null (JObj ps) = True"
| "is_object_or_null v = False"

text \<open>
  \<open>obj[key] = v\<close>. The key \<open>__proto__\<close> reaches the setter of \<open>Object.prototype\<close> (unless
  the prototype is already \<open>null\<close>): an object, an array or \<open>null\<close> becomes the prototype,
  any other value is ignored. Every other key sets an own property.
\<close>

definition assign :: "'n jsobject \<Rightarrow> jsstring \<Rightarrow> 'n jsval \<Rightarrow> 'n jsobject" where
  "assign obj key v =
     (if key = lit ''__proto__'' \<and> proto obj \<noteq> Some JNull
        then (if is_object_or_null v then obj\<lparr>proto := Some v\<rparr> else obj)
      else obj\<lparr>own := set_own key v (own obj)\<rparr>)"

text \<open>
  \<open>obj.key\<close> for a key that the built-in prototypes do not define: an own property, or a
  property of the object that was made the prototype, or \<open>undefined\<close>.
\<close>

definition get_prop :: "'n jsobject \<Rightarrow> jsstring \<Rightarrow> 'n jsval" where
  "get_prop obj key =
     (case map_of (own obj) key of
        Some v \<Rightarrow> v
      | None \<Rightarrow>
          (case proto obj of
             Some (JObj ps) \<Rightarrow> (case map_of ps key of Some v \<Rightarrow> v | None \<Rightarrow> JUndefined)
           | _ \<Rightarrow> JUndefined))"

fun truthy :: "'n runtime \<Rightarrow> 'n jsval \<Rightarrow> bool" where
  "truthy rt JUndefined = False"
| "truthy rt JNull = False"
| "truthy rt (JBool b) = b"
| "truthy rt (JNum n) = num_truthy rt n"
| "truthy rt (JStr s) = (s \<noteq> [])"
| "truthy rt (JArr xs) = True"
| "truthy rt (JObj ps) = True"

text \<open>\<open>Object.entries(m || {})\<close>.\<close>

definition entries :: "(jsstring \<times> Any) list option \<Rightarrow> (jsstring \<times> Any) list" where
  "entries m = (case m of None \<Rightarrow> [] | Some es \<Rightarrow> es)"

text \<open>
  The loop \<open>for (const [key, value] of ...) obj[key] = ProtobufHelper.unpackAny(value)\<close>:
  the first entry that fails to unpack throws.
\<close>

fun unpack_entries ::
  "'n runtime \<Rightarrow> (jsstring \<times> Any) list \<Rightarrow> 'n jsobject \<Rightarrow> 'n thrown + 'n jsobject" where
  "unpack_entries rt [] obj = Inr obj"
| "unpack_entries rt ((key, val) # es) obj =
     (case unpackAny rt val of
        Inl e \<Rightarrow> Inl e
      | Inr v \<Rightarrow> unpack_entries rt es (assign obj key v))"

text \<open>A value inside a template literal: \<open>undefined\<close> prints as the word.\<close>

definition template_text :: "jsstring option \<Rightarrow> jsstring" where
  "template_text t = (case t of None \<Rightarrow> lit ''undefined'' | Some s \<Rightarrow> s)"

text \<open>The \<open>switch (operation)\<close>, which compares with \<open>===\<close>.\<close>

definition transform :: "'n runtime \<Rightarrow> 'n jsval \<Rightarrow> jsstring \<Rightarrow> jsstring" where
  "transform rt operation inp =
     (if operation = JStr (lit ''uppercase'') then toUpperCase rt inp
      else if operation = JStr (lit ''lowercase'') then toLowerCase rt inp
      else if operation = JStr (lit ''reverse'') then rev inp
      else if operation = JStr (lit ''length'')
        then lit (num_toString rt (num_of_int rt (int (length inp))))
      else inp)"

text \<open>
  The body of the \<open>try\<close> block of \<open>MyCustomPlugin.execute\<close> (part_001, lines 13 to 63).
  What it writes with \<open>console.log\<close> is left out.
\<close>

definition execute_body :: "'n runtime \<Rightarrow> ExecutionRequestBody \<Rightarrow> 'n thrown + ExecutionResponse"
where
  "execute_body rt request =
     (case unpack_entries rt (entries (args request)) empty_object of
        Inl e \<Rightarrow> Inl e
      | Inr args' \<Rightarrow>
     (case unpack_entries rt (entries (options request)) empty_object of
        Inl e \<Rightarrow> Inl e
      | Inr options' \<Rightarrow>
          (let result0 = lit ''Input processed: '' @ [0x22] @ input request @ [0x22, 0x0A];
               result1 = (if own args' \<noteq> []
                 then result0 @ lit ''Arguments: ''
                        @ template_text (JSON_stringify_2 rt (JObj (own args'))) @ [0x0A]
                 else result0);
               result2 = (if own options' \<noteq> []
                 then result1 @ lit ''Options: ''
                        @ template_text (JSON_stringify_2 rt (JObj (own options'))) @ [0x0A]
                 else result1);
               operation = (let v = get_prop options' (lit ''operation'')
                            in if truthy rt v then v else JStr (lit ''uppercase''));
               processedInput = transform rt operation (input request)
           in Inr \<lparr>result = result2 @ lit ''Transformed output: ''
                       @ [0x22] @ processedInput @ [0x22]\<rparr>)))"

text \<open>\<open>error instanceof Error ? error.message : "Unknown error"\<close>.\<close>

definition error_description :: "'n thrown \<Rightarrow> jsstring" where
  "error_description error =
     (case error of ErrorObject msg \<Rightarrow> msg | NonError v \<Rightarrow> lit ''Unknown error'')"

text \<open>
  \<open>MyCustomPlugin.execute\<close> (part_001, lines 11 to 72): the \<open>try\<close> block and its
  \<open>catch\<close>, which returns a response.
\<close>

definition execute ::
  "'n runtime \<Rightarrow> ExecutionRequestBody \<Rightarrow> (ExecutionResponse, 'n thrown) promise" where
  "execute rt request =
     (case execute_body rt request of
        Inr response \<Rightarrow> Resolved response
      | Inl error \<Rightarrow> Resolved \<lparr>result = lit ''Error: '' @ error_description error\<rparr>)"


section \<open>\<open>PluginServer\<close>: the dispatcher\<close>

record ServerUnaryCall =
  call_request :: ExecutionRequestBody

text \<open>The first argument of the transport callback when the call fails.\<close>

record ServiceError =
  code :: nat
  message :: jsstring

definition grpc_status_INTERNAL :: nat where
  "grpc_status_INTERNAL = 13"

text \<open>One invocation of the callback: \<open>callback(null, response)\<close> or \<open>callback(error)\<close>.\<close>

datatype callback_args = SendData ExecutionResponse | SendError ServiceError

text \<open>
  What one run of \<open>handleExecute\<close> does: the invocations of the callback, the errors
  written with \<open>console.error\<close>, and how its own promise ends.
\<close>

record 'n dispatch =
  callbacks :: "callback_args list"
  console_errors :: "'n thrown list"
  settled :: "(unit, 'n thrown) promise"

text \<open>
  \<open>PluginServer.handleExecute(call, callback)\<close> (part_000, lines 98 to 113), for a
  contract \<open>executer\<close> given by how its \<open>execute\<close> ends on each request. The callback is
  the transport's: it records its arguments and does not throw.
\<close>

definition handleExecute ::
  "(ExecutionRequestBody \<Rightarrow> (ExecutionResponse, 'n thrown) promise) \<Rightarrow> ServerUnaryCall
     \<Rightarrow> 'n dispatch" where
  "handleExecute executer call =
     (let request = call_request call in
      case executer request of
        Resolved response \<Rightarrow>
          \<lparr>callbacks = [SendData response], console_errors = [], settled = Resolved ()\<rparr>
      | Rejected error \<Rightarrow>
          \<lparr>callbacks = [SendError \<lparr>code = grpc_status_INTERNAL,
                                     message = error_description error\<rparr>],
           console_errors = [error], settled = Resolved ()\<rparr>
      | Pending \<Rightarrow> \<lparr>callbacks = [], console_errors = [], settled = Pending\<rparr>)"

section \<open>\<open>PluginMain\<close>: the process\<close>

subsection \<open>\<open>parseInt\<close> with no radix\<close>

definition is_white_space :: "code_unit \<Rightarrow> bool" where
  "is_white_space u =
     (u \<in> {0x09, 0x0A, 0x0B, 0x0C, 0x0D, 0x20, 0xA0, 0x1680, 0x2028, 0x2029, 0x202F,
           0x205F, 0x3000, 0xFEFF}
      \<or> (0x2000 \<le> unat u \<and> unat u \<le> 0x200A))"

definition digit_value :: "code_unit \<Rightarrow> nat option" where
  "digit_value u =
     (if 0x30 \<le> unat u \<and> unat u \<le> 0x39 then Some (unat u - 0x30)
      else if 0x61 \<le> unat u \<and> unat u \<le> 0x7A then Some (unat u - 0x61 + 10)
      else if 0x41 \<le> unat u \<and> unat u \<le> 0x5A then Some (unat u - 0x41 + 10)
      else None)"

definition is_digit :: "nat \<Rightarrow> code_unit \<Rightarrow> bool" where
  "is_digit radix u = (case digit_value u of None \<Rightarrow> False | Some d \<Rightarrow> d < radix)"

definition digits_value :: "nat \<Rightarrow> jsstring \<Rightarrow> nat" where
  "digits_value radix z =
     foldl (\<lambda>acc u. acc * radix + (case digit_value u of None \<Rightarrow> 0 | Some d \<Rightarrow> d)) 0 z"

text \<open>
  The integer that \<open>parseInt\<close> reads: leading white space is skipped, then a sign, then
  \<open>0x\<close> or \<open>0X\<close> (which selects radix 16); the longest run of digits of the radix is the
  value, and there is no value (\<open>None\<close>) when there is no digit.
\<close>

definition parse_integer :: "jsstring \<Rightarrow> int option" where
  "parse_integer s =
     (let s1 = dropWhile is_white_space s;
          (sign, s2) = (case s1 of
                          [] \<Rightarrow> (1 :: int, s1)
                        | c # cs \<Rightarrow> if c = 0x2D then (- 1, cs)
                                    else if c = 0x2B then (1, cs) else (1, s1));
          (radix, s3) = (case s2 of
                           c # x # cs \<Rightarrow> if c = 0x30 \<and> (x = 0x78 \<or> x = 0x58) then (16 :: nat, cs)
                                         else (10, s2)
                         | _ \<Rightarrow> (10, s2));
          z = takeWhile (is_digit radix) s3
      in if z = [] then None else Some (sign * int (digits_value radix z)))"

text \<open>\<open>parseInt(s)\<close>: the runtime's number for the integer read, or \<open>NaN\<close>.\<close>

definition parseInt :: "'n runtime \<Rightarrow> jsstring \<Rightarrow> 'n" where
  "parseInt rt s = (case parse_integer s of None \<Rightarrow> num_NaN rt | Some k \<Rightarrow> num_of_int rt k)"

subsection \<open>The process and its events\<close>

text \<open>
  The two signals that \<open>PluginMain.start\<close> listens to. Other signals are not modelled:
  the source has no code for them, and what they do to the process is their default
  action, which for some is to end the process and for some is nothing.
\<close>

datatype signal = SIGTERM | SIGINT

text \<open>
  What the process does, in order: a call of the transport's \<open>bindAsync\<close> with its
  address, a line on standard output, a report on standard error (the label and the
  error), a listener registered for a signal, \<open>server.forceShutdown()\<close>, and
  \<open>process.exit\<close>.
\<close>

datatype 'n event =
    Bind jsstring
  | Stdout jsstring
  | Stderr jsstring "'n thrown"
  | Listen signal
  | ForceShutdown
  | Exit nat

text \<open>
  The process: its events so far, and how it ended, if it did: with the status given to
  \<open>process.exit\<close>, or by the default handling of \<open>SIGTERM\<close> or \<open>SIGINT\<close>, which ends
  the process when no listener has replaced it, without running any code of the
  program.
\<close>

datatype ending = Exited nat | Terminated signal

record 'n process =
  trace :: "'n event list"
  ended :: "ending option"

definition initial_process :: "'n process" where
  "initial_process = \<lparr>trace = [], ended = None\<rparr>"

definition emit :: "'n event \<Rightarrow> 'n process \<Rightarrow> 'n process" where
  "emit e p = p\<lparr>trace := trace p @ [e]\<rparr>"

definition process_exit :: "nat \<Rightarrow> 'n process \<Rightarrow> 'n process" where
  "process_exit status p = p\<lparr>trace := trace p @ [Exit status], ended := Some (Exited status)\<rparr>"

fun stdout_lines :: "'n event list \<Rightarrow> jsstring list" where
  "stdout_lines [] = []"
| "stdout_lines (Stdout l # es) = l # stdout_lines es"
| "stdout_lines (e # es) = stdout_lines es"

fun bind_calls :: "'n event list \<Rightarrow> jsstring list" where
  "bind_calls [] = []"
| "bind_calls (Bind a # es) = a # bind_calls es"
| "bind_calls (e # es) = bind_calls es"

fun has_listener :: "signal \<Rightarrow> 'n event list \<Rightarrow> bool" where
  "has_listener sig [] = False"
| "has_listener sig (Listen s # es) = (s = sig \<or> has_listener sig es)"
| "has_listener sig (e # es) = has_listener sig es"

text \<open>The address given to \<open>bindAsync\<close>: \<open>`localhost:${port}`\<close>.\<close>

definition bind_address :: "'n runtime \<Rightarrow> 'n \<Rightarrow> jsstring" where
  "bind_address rt port = lit ''localhost:'' @ lit (num_toString rt port)"

text \<open>
  \<open>PluginServer.start(port)\<close> (part_000, lines 121 to 139): the transport's \<open>bindAsync\<close>
  is a parameter, which fails with an error or gives the assigned port.
\<close>

definition server_start ::
  "'n runtime \<Rightarrow> (jsstring \<Rightarrow> 'n thrown + 'n) \<Rightarrow> 'n \<Rightarrow> 'n process
     \<Rightarrow> 'n process \<times> ('n thrown + 'n)" where
  "server_start rt bindAsync port p =
     (let p1 = emit (Bind (bind_address rt port)) p
      in case bindAsync (bind_address rt port) of
           Inl err \<Rightarrow> (p1, Inl err)
         | Inr assignedPort \<Rightarrow>
             (emit (Stdout (lit ''Plugin server started on port ''
                              @ lit (num_toString rt assignedPort))) p1,
              Inr assignedPort))"

text \<open>
  \<open>process.env.PLUGIN_PORT ? parseInt(process.env.PLUGIN_PORT) : 0\<close>, where the variable
  is unset (\<open>None\<close>) or a string, of which the empty one is falsy.
\<close>

definition requested_port :: "'n runtime \<Rightarrow> jsstring option \<Rightarrow> 'n" where
  "requested_port rt PLUGIN_PORT =
     (case PLUGIN_PORT of
        None \<Rightarrow> num_of_int rt 0
      | Some s \<Rightarrow> if s = [] then num_of_int rt 0 else parseInt rt s)"

text \<open>
  \<open>PluginMain.start()\<close> (part_000, lines 283 to 310), with the value of
  \<open>process.env.PLUGIN_PORT\<close>.
\<close>

definition main_start ::
  "'n runtime \<Rightarrow> jsstring option \<Rightarrow> (jsstring \<Rightarrow> 'n thrown + 'n) \<Rightarrow> 'n process \<Rightarrow> 'n process"
where
  "main_start rt PLUGIN_PORT bindAsync p =
     (let port = requested_port rt PLUGIN_PORT
      in case server_start rt bindAsync port p of
           (p1, Inr assignedPort) \<Rightarrow>
             emit (Listen SIGINT) (emit (Listen SIGTERM)
               (emit (Stdout (lit ''PLUGIN_PORT='' @ lit (num_toString rt assignedPort))) p1))
         | (p1, Inl error) \<Rightarrow>
             process_exit 1 (emit (Stderr (lit ''Failed to start plugin:'') error) p1))"

definition signal_name :: "signal \<Rightarrow> string" where
  "signal_name sig = (case sig of SIGTERM \<Rightarrow> ''SIGTERM'' | SIGINT \<Rightarrow> ''SIGINT'')"

text \<open>
  \<open>SIGTERM\<close> or \<open>SIGINT\<close> arrives: a process that has ended is not there to receive
  it; with a listener registered, the listener of \<open>PluginMain.start\<close> runs (a line,
  \<open>this.server.stop()\<close>, which is \<open>server.forceShutdown()\<close>, and \<open>process.exit(0)\<close>;
  part_000, lines 295 to 305); with none, the default handling of the signal ends the
  process. The only listeners are those that \<open>PluginMain.start\<close> registers.
\<close>

definition receive_signal :: "signal \<Rightarrow> 'n process \<Rightarrow> 'n process" where
  "receive_signal sig p =
     (if ended p \<noteq> None then p
      else if has_listener sig (trace p)
        then process_exit 0 (emit ForceShutdown
               (emit (Stdout (lit ''Received '' @ lit (signal_name sig)
                                @ lit '', shutting down gracefully'')) p))
      else p\<lparr>ended := Some (Terminated sig)\<rparr>)"


section \<open>Derived notions used in the statements\<close>

text \<open>\<open>unpackAny(packAny(v))\<close>, with no \<open>typeUrl\<close> argument.\<close>

definition round_trip :: "'n runtime \<Rightarrow> 'n jsval \<Rightarrow> 'n thrown + 'n jsval" where
  "round_trip rt v = (case packAny rt v None of Inl e \<Rightarrow> Inl e | Inr a \<Rightarrow> unpackAny rt a)"

text \<open>
  \<open>String.prototype.toWellFormed\<close>: every surrogate that is not part of a pair is replaced
  by U+FFFD.
\<close>

fun toWellFormed :: "jsstring \<Rightarrow> jsstring" where
  "toWellFormed [] = []"
| "toWellFormed [u] = (if is_surrogate u then [0xFFFD] else [u])"
| "toWellFormed (u # v # rest) =
     (if is_high_surrogate u \<and> is_low_surrogate v then u # v # toWellFormed rest
      else (if is_surrogate u then 0xFFFD else u) # toWellFormed (v # rest))"

text \<open>A structured value: what \<open>packAny\<close> sends to its last branch.\<close>

fun structured :: "'n jsval \<Rightarrow> bool" where
  "structured (JStr s) = False"
| "structured (JNum n) = False"
| "structured (JBool b) = False"
| "structured v = True"

section \<open>A small runtime for closed examples\<close>

text \<open>
  The theorems below hold for every runtime. To run the definitions at concrete inputs,
  this runtime has the integers and \<open>NaN\<close> (\<open>None\<close>) as its numbers, reads only integer
  literals in \<open>parseFloat\<close>, maps the case of ASCII letters only, and parses only the JSON
  texts listed in \<open>known_json\<close>; on these inputs it computes what JavaScript computes.
\<close>

definition digit_char :: "nat \<Rightarrow> char" where
  "digit_char d = ''0123456789'' ! d"

fun decimal :: "nat \<Rightarrow> string" where
  "decimal n =
     (if n < 10 then [digit_char n] else decimal (n div 10) @ [digit_char (n mod 10)])"

declare decimal.simps [simp del]

definition int_toString :: "int option \<Rightarrow> string" where
  "int_toString n =
     (case n of
        None \<Rightarrow> ''NaN''
      | Some k \<Rightarrow> if k < 0 then ''-'' @ decimal (nat (- k)) else decimal (nat k))"

definition int_prefix :: "jsstring \<Rightarrow> int option" where
  "int_prefix s =
     (let s1 = dropWhile is_white_space s;
          (sign, s2) = (case s1 of
                          [] \<Rightarrow> (1 :: int, s1)
                        | c # cs \<Rightarrow> if c = 0x2D then (- 1, cs)
                                    else if c = 0x2B then (1, cs) else (1, s1));
          z = takeWhile (is_digit 10) s2
      in if z = [] then None else Some (sign * int (digits_value 10 z)))"

definition ascii_upper :: "jsstring \<Rightarrow> jsstring" where
  "ascii_upper s = map (\<lambda>u. if 0x61 \<le> unat u \<and> unat u \<le> 0x7A then u - 0x20 else u) s"

definition ascii_lower :: "jsstring \<Rightarrow> jsstring" where
  "ascii_lower s = map (\<lambda>u. if 0x41 \<le> unat u \<and> unat u \<le> 0x5A then u + 0x20 else u) s"

definition known_json :: "(jsstring \<times> int option jsval) list" where
  "known_json =
     [(lit ''null'', JNull), (lit ''[]'', JArr []), (lit ''{}'', JObj []),
      (lit ''[true,null]'', JArr [JBool True, JNull])]"

definition example_runtime :: "int option runtime" where
  "example_runtime =
     \<lparr>num_toString = int_toString,
      num_isFinite = (\<lambda>n. n \<noteq> None),
      num_truthy = (\<lambda>n. n \<noteq> None \<and> n \<noteq> Some 0),
      num_of_int = Some,
      num_NaN = None,
      parseFloat = int_prefix,
      JSON_parse = (\<lambda>s. case map_of known_json s of
                           Some v \<Rightarrow> Inr v
                         | None \<Rightarrow> Inl (ErrorObject (lit ''Unexpected token''))),
      toUpperCase = ascii_upper,
      toLowerCase = ascii_lower\<rparr>"


section \<open>Properties of the strings and of UTF-8\<close>

lemma str_includes_iff_sublist: "str_includes s t \<longleftrightarrow> sublist t s"
  by (induction s) (simp_all add: sublist_Cons_right)

lemma lit_append: "lit (a @ b) = lit a @ lit b"
  by (simp add: lit_def)

text \<open>A number written in base 64: its digits, as the encoder takes them.\<close>

lemma split_64:
  fixes cp :: nat
  obtains q r where "cp div 0x40 = q" "cp mod 0x40 = r" "cp = q * 0x40 + r" "r < 0x40"
  by (metis div_mult_mod_eq mod_less_divisor zero_less_numeral)

lemma split_4096:
  fixes cp :: nat
  obtains p q r where "cp div 0x1000 = p" "cp div 0x40 mod 0x40 = q" "cp mod 0x40 = r"
    "cp = p * 0x1000 + q * 0x40 + r" "q < 0x40" "r < 0x40"
proof -
  have d: "cp div 0x1000 = cp div 0x40 div 0x40"
    by (simp add: div_mult2_eq [symmetric])
  obtain a r where a: "cp div 0x40 = a" "cp mod 0x40 = r" "cp = a * 0x40 + r" "r < 0x40"
    by (rule split_64)
  obtain p q where p: "a div 0x40 = p" "a mod 0x40 = q" "a = p * 0x40 + q" "q < 0x40"
    by (rule split_64)
  have "cp = p * 0x1000 + q * 0x40 + r" using a(3) p(3) by simp
  then show thesis using that [of p q r] a p d by simp
qed

lemma split_262144:
  fixes cp :: nat
  obtains n p q r where "cp div 0x40000 = n" "cp div 0x1000 mod 0x40 = p"
    "cp div 0x40 mod 0x40 = q" "cp mod 0x40 = r"
    "cp = n * 0x40000 + p * 0x1000 + q * 0x40 + r" "p < 0x40" "q < 0x40" "r < 0x40"
proof -
  have d: "cp div 0x40000 = cp div 0x40 div 0x1000" "cp div 0x1000 = cp div 0x40 div 0x40"
    by (simp_all add: div_mult2_eq [symmetric])
  obtain a r where a: "cp div 0x40 = a" "cp mod 0x40 = r" "cp = a * 0x40 + r" "r < 0x40"
    by (rule split_64)
  obtain n p q where p: "a div 0x1000 = n" "a div 0x40 mod 0x40 = p" "a mod 0x40 = q"
     "a = n * 0x1000 + p * 0x40 + q" "p < 0x40" "q < 0x40"
    by (rule split_4096)
  have "cp = n * 0x40000 + p * 0x1000 + q * 0x40 + r" using a(3) p(4) by simp
  then show thesis using that [of n p q r] a p d by simp
qed

lemma unat_byte: "x < 256 \<Longrightarrow> unat (of_nat x :: byte) = x"
  by (simp add: unat_of_nat)

lemma unat_unit_bound: "unat (u :: code_unit) < 65536"
  using unsigned_less [of u, where 'a = nat] by simp

text \<open>The decoder on a complete sequence of one, two, three and four bytes.\<close>

lemma dec_1:
  "unat b < 0x80 \<Longrightarrow> utf8_decode (b # bs) = of_nat (unat b) # utf8_decode bs"
  by (simp add: utf8_decode.simps)

lemma dec_2:
  assumes "0xC2 \<le> unat b" "unat b \<le> 0xDF" "0x80 \<le> unat c" "unat c \<le> 0xBF"
  shows "utf8_decode (b # c # bs) =
    code_units_of ((unat b - 0xC0) * 0x40 + (unat c - 0x80)) @ utf8_decode bs"
  using assms by (simp add: in_range_def utf8_decode.simps)

lemma dec_3:
  assumes "0xE0 \<le> unat b" "unat b \<le> 0xEF"
    "(if unat b = 0xE0 then 0xA0 else 0x80) \<le> unat c"
    "unat c \<le> (if unat b = 0xED then 0x9F else 0xBF)"
    "0x80 \<le> unat d" "unat d \<le> 0xBF"
  shows "utf8_decode (b # c # d # bs) =
    code_units_of ((unat b - 0xE0) * 0x1000 + (unat c - 0x80) * 0x40 + (unat d - 0x80))
      @ utf8_decode bs"
proof -
  have "\<not> unat b < 0x80" "\<not> in_range 0xC2 0xDF b" "in_range 0xE0 0xEF b"
    using assms(1,2) by (simp_all add: in_range_def)
  moreover have "in_range (if unat b = 0xE0 then 0xA0 else 0x80)
                         (if unat b = 0xED then 0x9F else 0xBF) c"
    using assms(3,4) unfolding in_range_def by blast
  moreover have "in_range 0x80 0xBF d"
    using assms(5,6) by (simp add: in_range_def)
  ultimately show ?thesis
    by (simp only: utf8_decode.simps if_True if_False list.case)
qed

lemma dec_4:
  assumes "0xF0 \<le> unat b" "unat b \<le> 0xF4"
    "(if unat b = 0xF0 then 0x90 else 0x80) \<le> unat c"
    "unat c \<le> (if unat b = 0xF4 then 0x8F else 0xBF)"
    "0x80 \<le> unat d" "unat d \<le> 0xBF" "0x80 \<le> unat e" "unat e \<le> 0xBF"
  shows "utf8_decode (b # c # d # e # bs) =
    code_units_of ((unat b - 0xF0) * 0x40000 + (unat c - 0x80) * 0x1000
      + (unat d - 0x80) * 0x40 + (unat e - 0x80)) @ utf8_decode bs"
proof -
  have "\<not> unat b < 0x80" "\<not> in_range 0xC2 0xDF b" "\<not> in_range 0xE0 0xEF b"
    "in_range 0xF0 0xF4 b"
    using assms(1,2) by (simp_all add: in_range_def)
  moreover have "in_range (if unat b = 0xF0 then 0x90 else 0x80)
                         (if unat b = 0xF4 then 0x8F else 0xBF) c"
    using assms(3,4) unfolding in_range_def by blast
  moreover have "in_range 0x80 0xBF d" "in_range 0x80 0xBF e"
    using assms(5-8) by (simp_all add: in_range_def)
  ultimately show ?thesis
    by (simp only: utf8_decode.simps if_True if_False list.case)
qed

text \<open>Decoding the bytes of one code point gives the code point back, by length.\<close>

lemma decode_1:
  assumes "cp < 0x80"
  shows "utf8_decode (encode_code_point cp @ bs) = code_units_of cp @ utf8_decode bs"
proof -
  define b :: byte where "b = of_nat cp"
  have b: "unat b = cp" unfolding b_def using assms by (intro unat_byte) linarith
  have e: "encode_code_point cp = [b]"
    using assms by (simp add: encode_code_point_def b_def)
  have "utf8_decode (b # bs) = of_nat (unat b) # utf8_decode bs"
    using assms b by (intro dec_1) simp
  then show ?thesis using assms by (simp add: e b code_units_of_def)
qed

lemma decode_2:
  assumes "0x80 \<le> cp" "cp < 0x800"
  shows "utf8_decode (encode_code_point cp @ bs) = code_units_of cp @ utf8_decode bs"
proof -
  obtain q r where s: "cp div 0x40 = q" "cp mod 0x40 = r" "cp = q * 0x40 + r" "r < 0x40"
    by (rule split_64)
  have q: "2 \<le> q" "q < 32" using assms s(3,4) by linarith+
  define b :: byte where "b = of_nat (0xC0 + q)"
  define c :: byte where "c = of_nat (0x80 + r)"
  have b: "unat b = 0xC0 + q" unfolding b_def using q by (intro unat_byte) linarith
  have c: "unat c = 0x80 + r" unfolding c_def using s(4) by (intro unat_byte) linarith
  have e: "encode_code_point cp = [b, c]"
    using assms unfolding encode_code_point_def s(1,2) b_def c_def by simp
  have "utf8_decode (b # c # bs) =
    code_units_of ((unat b - 0xC0) * 0x40 + (unat c - 0x80)) @ utf8_decode bs"
  proof (rule dec_2)
    show "0xC2 \<le> unat b" "unat b \<le> 0xDF" using q b by linarith+
    show "0x80 \<le> unat c" "unat c \<le> 0xBF" using s(4) c by linarith+
  qed
  then show ?thesis unfolding e by (simp add: b c s(3))
qed

lemma decode_3:
  assumes "0x800 \<le> cp" "cp < 0x10000" "\<not> (0xD800 \<le> cp \<and> cp \<le> 0xDFFF)"
  shows "utf8_decode (encode_code_point cp @ bs) = code_units_of cp @ utf8_decode bs"
proof -
  obtain p q r where s: "cp div 0x1000 = p" "cp div 0x40 mod 0x40 = q" "cp mod 0x40 = r"
    "cp = p * 0x1000 + q * 0x40 + r" "q < 0x40" "r < 0x40"
    by (rule split_4096)
  have p: "p < 16" using assms s(4,5,6) by linarith
  have q0: "p = 0 \<Longrightarrow> 32 \<le> q" using assms s(4,5,6) by linarith
  have q13: "p = 13 \<Longrightarrow> q < 32" using assms s(4,5,6) by linarith
  define b :: byte where "b = of_nat (0xE0 + p)"
  define c :: byte where "c = of_nat (0x80 + q)"
  define d :: byte where "d = of_nat (0x80 + r)"
  have b: "unat b = 0xE0 + p" unfolding b_def using p by (intro unat_byte) linarith
  have c: "unat c = 0x80 + q" unfolding c_def using s(5) by (intro unat_byte) linarith
  have d: "unat d = 0x80 + r" unfolding d_def using s(6) by (intro unat_byte) linarith
  have e: "encode_code_point cp = [b, c, d]"
    using assms unfolding encode_code_point_def s(1,2,3) b_def c_def d_def by simp
  have "utf8_decode (b # c # d # bs) =
    code_units_of ((unat b - 0xE0) * 0x1000 + (unat c - 0x80) * 0x40 + (unat d - 0x80))
      @ utf8_decode bs"
  proof (rule dec_3)
    show "0xE0 \<le> unat b" "unat b \<le> 0xEF" using p b by linarith+
    show "(if unat b = 0xE0 then 0xA0 else 0x80) \<le> unat c"
      using q0 by (auto simp: b c)
    show "unat c \<le> (if unat b = 0xED then 0x9F else 0xBF)"
      using q13 s(5) by (auto simp: b c)
    show "0x80 \<le> unat d" "unat d \<le> 0xBF" using s(6) d by linarith+
  qed
  then show ?thesis unfolding e by (simp add: b c d s(4))
qed

lemma decode_4:
  assumes "0x10000 \<le> cp" "cp < 0x110000"
  shows "utf8_decode (encode_code_point cp @ bs) = code_units_of cp @ utf8_decode bs"
proof -
  obtain n p q r where s: "cp div 0x40000 = n" "cp div 0x1000 mod 0x40 = p"
    "cp div 0x40 mod 0x40 = q" "cp mod 0x40 = r"
    "cp = n * 0x40000 + p * 0x1000 + q * 0x40 + r" "p < 0x40" "q < 0x40" "r < 0x40"
    by (rule split_262144)
  have n: "n < 5" using assms s(5-8) by linarith
  have p0: "n = 0 \<Longrightarrow> 16 \<le> p" using assms s(5-8) by linarith
  have p4: "n = 4 \<Longrightarrow> p < 16" using assms s(5-8) by linarith
  define b :: byte where "b = of_nat (0xF0 + n)"
  define c :: byte where "c = of_nat (0x80 + p)"
  define d :: byte where "d = of_nat (0x80 + q)"
  define f :: byte where "f = of_nat (0x80 + r)"
  have b: "unat b = 0xF0 + n" unfolding b_def using n by (intro unat_byte) linarith
  have c: "unat c = 0x80 + p" unfolding c_def using s(6) by (intro unat_byte) linarith
  have d: "unat d = 0x80 + q" unfolding d_def using s(7) by (intro unat_byte) linarith
  have f: "unat f = 0x80 + r" unfolding f_def using s(8) by (intro unat_byte) linarith
  have e: "encode_code_point cp = [b, c, d, f]"
    using assms unfolding encode_code_point_def s(1-4) b_def c_def d_def f_def by simp
  have "utf8_decode (b # c # d # f # bs) =
    code_units_of ((unat b - 0xF0) * 0x40000 + (unat c - 0x80) * 0x1000
      + (unat d - 0x80) * 0x40 + (unat f - 0x80)) @ utf8_decode bs"
  proof (rule dec_4)
    show "0xF0 \<le> unat b" "unat b \<le> 0xF4" using n b by linarith+
    show "(if unat b = 0xF0 then 0x90 else 0x80) \<le> unat c"
      using p0 by (auto simp: b c)
    show "unat c \<le> (if unat b = 0xF4 then 0x8F else 0xBF)"
      using p4 s(6) by (auto simp: b c)
    show "0x80 \<le> unat d" "unat d \<le> 0xBF" using s(7) d by linarith+
    show "0x80 \<le> unat f" "unat f \<le> 0xBF" using s(8) f by linarith+
  qed
  then show ?thesis unfolding e by (simp add: b c d f s(5))
qed

lemma decode_encode_code_point:
  assumes "cp < 0x110000" "\<not> (0xD800 \<le> cp \<and> cp \<le> 0xDFFF)"
  shows "utf8_decode (encode_code_point cp @ bs) = code_units_of cp @ utf8_decode bs"
  using assms decode_1 [of cp bs] decode_2 [of cp bs] decode_3 [of cp bs] decode_4 [of cp bs]
  by linarith

lemma code_units_of_unat: "code_units_of (unat u) = [u]"
  using unat_unit_bound [of u] by (simp add: code_units_of_def)

lemma code_units_of_pair:
  assumes "is_high_surrogate u" "is_low_surrogate v"
  shows "code_units_of (pair_code_point u v) = [u, v]"
proof -
  define h l where "h = unat u - 0xD800" and "l = unat v - 0xDC00"
  have h: "h < 0x400" "unat u = 0xD800 + h" and l: "l < 0x400" "unat v = 0xDC00 + l"
    using assms by (auto simp: is_high_surrogate_def is_low_surrogate_def h_def l_def)
  have p: "pair_code_point u v = 0x10000 + (h * 0x400 + l)"
    by (simp add: pair_code_point_def h_def l_def)
  have "(h * 0x400 + l) div 0x400 = h" "(h * 0x400 + l) mod 0x400 = l"
    using l(1) by simp_all
  then have "code_units_of (pair_code_point u v) = [of_nat (unat u), of_nat (unat v)]"
    unfolding p h(2) l(2) by (simp add: code_units_of_def)
  then show ?thesis by simp
qed

lemma pair_code_point_range:
  assumes "is_high_surrogate u" "is_low_surrogate v"
  shows "0x10000 \<le> pair_code_point u v" "pair_code_point u v < 0x110000"
  using assms by (auto simp: is_high_surrogate_def is_low_surrogate_def pair_code_point_def)

lemma decode_unit:
  assumes "\<not> is_surrogate u"
  shows "utf8_decode (encode_code_point (unat u) @ bs) = u # utf8_decode bs"
  using assms decode_encode_code_point [of "unat u" bs] unat_unit_bound [of u]
  by (simp add: is_surrogate_def code_units_of_unat)

lemma decode_pair:
  assumes "is_high_surrogate u" "is_low_surrogate v"
  shows "utf8_decode (encode_code_point (pair_code_point u v) @ bs) = u # v # utf8_decode bs"
  using decode_4 [OF pair_code_point_range [OF assms], of bs] code_units_of_pair [OF assms]
  by simp

text \<open>A well-formed string survives encoding and decoding.\<close>

lemma utf8_round_trip: "well_formed s \<Longrightarrow> utf8_decode (utf8_encode s) = s"
proof (induction s rule: utf8_encode.induct)
  case 1
  then show ?case by simp
next
  case (2 u)
  then show ?case using decode_unit [of u "[]"] by simp
next
  case (3 u v rest)
  then show ?case
    by (auto simp: decode_pair decode_unit split: if_splits)
qed


text \<open>
  On every string, decoding the encoded string replaces the surrogates without a partner
  and changes nothing else; the well-formed strings are those that stay as they are.
\<close>

lemma encode_replacement: "encode_code_point 0xFFFD = [0xEF, 0xBF, 0xBD]"
  by (simp add: encode_code_point_def)

lemma decode_replacement: "utf8_decode ([0xEF, 0xBF, 0xBD] @ bs) = 0xFFFD # utf8_decode bs"
  using decode_unit [of "0xFFFD" bs] by (simp add: encode_replacement is_surrogate_def)

lemma utf8_decode_encode: "utf8_decode (utf8_encode s) = toWellFormed s"
proof (induction s rule: utf8_encode.induct)
  case 1
  then show ?case by simp
next
  case (2 u)
  then show ?case
    using decode_unit [of u "[]"] decode_replacement [of "[]"] by simp
next
  case (3 u v rest)
  then show ?case
    using decode_replacement [of "utf8_encode (v # rest)"]
    by (auto simp: decode_pair decode_unit)
qed

lemma toWellFormed_fixed: "toWellFormed s = s \<longleftrightarrow> well_formed s"
proof (induction s rule: well_formed.induct)
  case 1
  then show ?case by simp
next
  case (2 u)
  then show ?case by (auto simp: is_surrogate_def)
next
  case (3 u v rest)
  have "is_surrogate u \<Longrightarrow> (0xFFFD :: code_unit) \<noteq> u"
    by (auto simp: is_surrogate_def)
  with 3 show ?case by auto
qed

text \<open>Well-formed strings: concatenation, literals, and the text of \<open>JSON.stringify\<close>.\<close>

lemma high_is_surrogate: "is_high_surrogate u \<Longrightarrow> is_surrogate u"
  by (simp add: is_high_surrogate_def is_surrogate_def)

lemma well_formed_Cons: "\<not> is_surrogate u \<Longrightarrow> well_formed (u # s) = well_formed s"
  by (cases s) (auto dest: high_is_surrogate)

lemma well_formed_no_surrogates: "\<forall>u \<in> set s. \<not> is_surrogate u \<Longrightarrow> well_formed s"
  by (induction s) (simp_all add: well_formed_Cons)

lemma well_formed_append:
  "well_formed a \<Longrightarrow> well_formed b \<Longrightarrow> well_formed (a @ b)"
proof (induction a rule: well_formed.induct)
  case 1
  then show ?case by simp
next
  case (2 u)
  then show ?case by (simp add: well_formed_Cons)
next
  case (3 u v rest)
  then show ?case by (auto split: if_splits simp: well_formed_Cons)
qed

lemma lit_no_surrogates: "\<forall>u \<in> set (lit s). \<not> is_surrogate u"
proof -
  have "\<not> is_surrogate (of_nat (of_char c))" for c :: char
  proof -
    have "(of_char c :: nat) < 256"
      by (metis of_char_mod_256 mod_less_divisor zero_less_numeral)
    then have small: "(of_char c :: nat) < 65536" "(of_char c :: nat) < 55296"
      by linarith+
    have "unat (of_nat (of_char c) :: code_unit) = of_char c"
      using small(1) by (simp add: unat_of_nat)
    with small(2) show ?thesis
      by (simp add: is_surrogate_def)
  qed
  then show ?thesis by (auto simp: lit_def)
qed

lemma well_formed_lit: "well_formed (lit s)"
  by (rule well_formed_no_surrogates) (rule lit_no_surrogates)

lemma hex_digit_no_surrogate: "d < 16 \<Longrightarrow> \<not> is_surrogate (hex_digit d)"
  by (simp add: hex_digit_def is_surrogate_def unat_of_nat del: of_nat_add of_nat_numeral)

lemma unicode_escape_no_surrogates: "\<forall>x \<in> set (unicode_escape u). \<not> is_surrogate x"
proof -
  have "unat u div 0x1000 < 16"
    using unat_unit_bound [of u] by (simp add: less_mult_imp_div_less)
  moreover have "\<not> is_surrogate 0x5C" "\<not> is_surrogate 0x75"
    by (simp_all add: is_surrogate_def)
  ultimately show ?thesis
    by (simp add: unicode_escape_def hex_digit_no_surrogate)
qed

lemma quote_unit_no_surrogates: "\<forall>x \<in> set (quote_unit u). \<not> is_surrogate x"
  using unicode_escape_no_surrogates [of u]
  by (simp add: quote_unit_def is_surrogate_def)

lemma well_formed_quote_unit: "well_formed (quote_unit u)"
  by (rule well_formed_no_surrogates) (rule quote_unit_no_surrogates)

lemma well_formed_quote_units: "well_formed (quote_units s)"
proof (induction s rule: quote_units.induct)
  case 1
  then show ?case by simp
next
  case (2 u)
  then show ?case by (simp add: well_formed_quote_unit)
next
  case (3 u v rest)
  then show ?case by (simp add: well_formed_quote_unit well_formed_append)
qed

lemma well_formed_QuoteJSONString: "well_formed (QuoteJSONString s)"
  unfolding QuoteJSONString_def
  by (intro well_formed_append well_formed_quote_units) (simp_all add: is_surrogate_def)

lemma well_formed_join:
  "well_formed sep \<Longrightarrow> \<forall>x \<in> set xs. well_formed x \<Longrightarrow> well_formed (join sep xs)"
  by (induction sep xs rule: join.induct) (simp_all add: well_formed_append)

lemma well_formed_wrap_members:
  assumes "\<not> is_surrogate opening" "\<not> is_surrogate closing" "well_formed gap" "well_formed stepback"
    "\<forall>x \<in> set partial. well_formed x"
  shows "well_formed (wrap_members opening closing gap stepback partial)"
proof -
  have one: "well_formed [u]" if "\<not> is_surrogate u" for u using that by simp
  have c: "well_formed [0x2C]" "well_formed [0x0A]" "well_formed [0x2C, 0x0A]"
    by (simp_all add: is_surrogate_def)
  have i: "well_formed (stepback @ gap)"
    using assms by (simp add: well_formed_append)
  show ?thesis
    unfolding wrap_members_def Let_def using assms c i
    by (auto intro!: well_formed_append well_formed_join one simp: well_formed_Cons)
qed

lemma well_formed_Serialize:
  "well_formed gap \<Longrightarrow> well_formed stepback \<Longrightarrow>
     SerializeJSONProperty rt gap stepback v = Some t \<Longrightarrow> well_formed t"
  "well_formed gap \<Longrightarrow> well_formed indent \<Longrightarrow>
     \<forall>t \<in> set (SerializeJSONArray rt gap indent xs). well_formed t"
  "well_formed gap \<Longrightarrow> well_formed indent \<Longrightarrow>
     \<forall>t \<in> set (SerializeJSONObject rt gap indent ps). well_formed t"
proof (induction rt gap stepback v and rt gap indent xs and rt gap indent ps
    arbitrary: t and and
    rule: SerializeJSONProperty_SerializeJSONArray_SerializeJSONObject.induct)
  case (1 rt gap stepback)
  then show ?case by simp
next
  case (2 rt gap stepback)
  then show ?case by (auto simp: well_formed_lit)
next
  case (3 rt gap stepback b)
  then show ?case by (auto simp: well_formed_lit)
next
  case (4 rt gap stepback n)
  then show ?case by (auto simp: well_formed_lit)
next
  case (5 rt gap stepback s)
  then show ?case by (auto simp: well_formed_QuoteJSONString)
next
  case (6 rt gap stepback xs)
  then show ?case
    by (auto intro!: well_formed_wrap_members simp: is_surrogate_def well_formed_append)
next
  case (7 rt gap stepback ps)
  then show ?case
    by (auto intro!: well_formed_wrap_members simp: is_surrogate_def well_formed_append)
next
  case (8 rt gap indent)
  then show ?case by simp
next
  case (9 rt gap indent x xs)
  then show ?case by (auto simp: well_formed_lit split: option.splits)
next
  case (10 rt gap indent)
  then show ?case by simp
next
  case (11 rt gap indent k v ps)
  have sp: "well_formed [0x3A]" "well_formed [0x20]" by (simp_all add: is_surrogate_def)
  show ?case using 11 sp
    by (auto intro!: well_formed_append well_formed_QuoteJSONString
          simp: well_formed_Cons split: option.splits)
qed

lemma well_formed_JSON_stringify: "JSON_stringify rt v = Some t \<Longrightarrow> well_formed t"
  using well_formed_Serialize(1) [of "[]" "[]" rt v t] by (simp add: JSON_stringify_def)


lemma utf8_round_trip_lit: "utf8_decode (utf8_encode (lit s)) = lit s"
  by (rule utf8_round_trip) (rule well_formed_lit)

section \<open>Properties of \<open>packAny\<close> and \<open>unpackAny\<close>\<close>

lemma or_default_None: "or_default None d = d"
  by (simp add: or_default_def)

lemma or_default_empty: "or_default (Some []) d = d"
  by (simp add: or_default_def)

lemma or_default_Some: "u \<noteq> [] \<Longrightarrow> or_default (Some u) d = u"
  by (simp add: or_default_def)

lemma packAny_JStr:
  "packAny rt (JStr s) t =
     Inr \<lparr>any_typeUrl = or_default t StringValue_url, any_value = utf8_encode s\<rparr>"
  by (simp add: packAny_def)

lemma packAny_JNum:
  "packAny rt (JNum n) t =
     Inr \<lparr>any_typeUrl = or_default t DoubleValue_url,
          any_value = utf8_encode (lit (num_toString rt n))\<rparr>"
  by (simp add: packAny_def)

lemma packAny_JBool:
  "packAny rt (JBool b) t =
     Inr \<lparr>any_typeUrl = or_default t BoolValue_url,
          any_value = utf8_encode (if b then lit ''true'' else lit ''false'')\<rparr>"
  by (simp add: packAny_def)

lemma packAny_structured:
  assumes "structured v"
  shows "packAny rt v t =
     (case JSON_stringify rt v of
        None \<Rightarrow> Inl Buffer_from_undefined
      | Some json \<Rightarrow>
          Inr \<lparr>any_typeUrl = or_default t Struct_url, any_value = utf8_encode json\<rparr>)"
  using assms by (cases v) (simp_all add: packAny_def)

lemma packAny_empty_eq_None: "packAny rt v (Some []) = packAny rt v None"
  by (cases v) (simp_all add: packAny_def or_default_empty or_default_None split: option.splits)

lemma packAny_override:
  assumes "u \<noteq> []"
  shows "packAny rt v (Some u) =
     (case packAny rt v None of Inl e \<Rightarrow> Inl e | Inr a \<Rightarrow> Inr (a\<lparr>any_typeUrl := u\<rparr>))"
  using assms
  by (cases v) (simp_all add: packAny_def or_default_Some or_default_None split: option.splits)

lemma StringValue_url_nonempty: "StringValue_url \<noteq> []"
  by (simp add: StringValue_url_def lit_def)

lemma JSON_stringify_JObj_Nil: "JSON_stringify rt (JObj []) = Some (lit ''{}'')"
  by (simp add: JSON_stringify_def wrap_members_def lit_def)

lemma JSON_stringify_JObj: "\<exists>json. JSON_stringify rt (JObj ps) = Some json"
  by (simp add: JSON_stringify_def)

text \<open>Which markers each default type URL contains.\<close>

lemma StringValue_url_markers:
  "str_includes StringValue_url (lit ''StringValue'')"
  by (simp_all add: StringValue_url_def lit_def)

lemma DoubleValue_url_markers:
  "\<not> str_includes DoubleValue_url (lit ''StringValue'')"
  "str_includes DoubleValue_url (lit ''DoubleValue'')"
  by (simp_all add: DoubleValue_url_def lit_def)

lemma BoolValue_url_markers:
  "\<not> str_includes BoolValue_url (lit ''StringValue'')"
  "\<not> str_includes BoolValue_url (lit ''DoubleValue'')"
  "str_includes BoolValue_url (lit ''BoolValue'')"
  by (simp_all add: BoolValue_url_def lit_def)

lemma Struct_url_markers:
  "\<not> str_includes Struct_url (lit ''StringValue'')"
  "\<not> str_includes Struct_url (lit ''DoubleValue'')"
  "\<not> str_includes Struct_url (lit ''BoolValue'')"
  "str_includes Struct_url (lit ''Struct'')"
  by (simp_all add: Struct_url_def lit_def)

lemma Struct_url_distinct:
  "Struct_url \<noteq> StringValue_url" "Struct_url \<noteq> DoubleValue_url" "Struct_url \<noteq> BoolValue_url"
  by (simp_all add: Struct_url_def StringValue_url_def DoubleValue_url_def BoolValue_url_def
        lit_def)

text \<open>
  Claim C9. An empty string as \<open>typeUrl\<close> does not override the tag: \<open>packAny\<close> then does
  exactly what it does with no \<open>typeUrl\<close>, and the tag is the default of the value's
  dynamic type.
\<close>

theorem packAny_empty_typeUrl_uses_default:
  "packAny rt v (Some []) = packAny rt v None
   \<and> packAny rt (JStr s) (Some []) =
        Inr \<lparr>any_typeUrl = StringValue_url, any_value = utf8_encode s\<rparr>
   \<and> packAny rt (JNum n) (Some []) =
        Inr \<lparr>any_typeUrl = DoubleValue_url, any_value = utf8_encode (lit (num_toString rt n))\<rparr>
   \<and> packAny rt (JBool b) (Some []) =
        Inr \<lparr>any_typeUrl = BoolValue_url,
             any_value = utf8_encode (if b then lit ''true'' else lit ''false'')\<rparr>
   \<and> (structured w \<and> JSON_stringify rt w = Some json \<longrightarrow>
        packAny rt w (Some []) =
          Inr \<lparr>any_typeUrl = Struct_url, any_value = utf8_encode json\<rparr>)"
  by (simp add: packAny_empty_eq_None packAny_JStr packAny_JNum packAny_JBool
        packAny_structured or_default_empty or_default_None)

theorem packAny_empty_typeUrl_uses_default_witness:
  "structured (JObj [] :: int option jsval)
   \<and> JSON_stringify example_runtime (JObj []) = Some (lit ''{}'')
   \<and> packAny example_runtime (JObj []) (Some []) =
        Inr \<lparr>any_typeUrl = Struct_url, any_value = utf8_encode (lit ''{}'')\<rparr>"
  using packAny_empty_typeUrl_uses_default
    [of example_runtime JNull "[]" None True "JObj []" "lit ''{}''"]
  by (simp add: JSON_stringify_JObj_Nil)

text \<open>
  Claim C3, as stated, fails where it says that every supplied type identifier replaces
  the inferred tag: the empty string is supplied and the tag stays
  \<open>type.googleapis.com/google.protobuf.StringValue\<close>.
\<close>

theorem packAny_empty_identifier_counterexample:
  "packAny example_runtime (JStr (lit ''x'')) (Some []) =
     Inr \<lparr>any_typeUrl = StringValue_url, any_value = utf8_encode (lit ''x'')\<rparr>
   \<and> StringValue_url \<noteq> []"
  by (simp add: packAny_JStr or_default_empty StringValue_url_nonempty)

text \<open>
  Claim C3, amended. With no \<open>typeUrl\<close>: a string gets the tag \<open>StringValue\<close> and its
  UTF-8 bytes; a number the tag \<open>DoubleValue\<close> and the bytes of its decimal text; a boolean
  the tag \<open>BoolValue\<close> and the bytes of \<open>true\<close> or \<open>false\<close>; any other value that has a JSON
  serialization the tag \<open>Struct\<close> and the bytes of that serialization. A non-empty
  \<open>typeUrl\<close> replaces the tag and changes nothing else.
\<close>

theorem packAny_branch_selection:
  "packAny rt (JStr s) None =
     Inr \<lparr>any_typeUrl = StringValue_url, any_value = utf8_encode s\<rparr>
   \<and> packAny rt (JNum n) None =
        Inr \<lparr>any_typeUrl = DoubleValue_url, any_value = utf8_encode (lit (num_toString rt n))\<rparr>
   \<and> packAny rt (JBool b) None =
        Inr \<lparr>any_typeUrl = BoolValue_url,
             any_value = utf8_encode (if b then lit ''true'' else lit ''false'')\<rparr>
   \<and> (structured w \<and> JSON_stringify rt w = Some json \<longrightarrow>
        packAny rt w None = Inr \<lparr>any_typeUrl = Struct_url, any_value = utf8_encode json\<rparr>)
   \<and> (u \<noteq> [] \<longrightarrow>
        packAny rt v (Some u) =
          (case packAny rt v None of
             Inl e \<Rightarrow> Inl e
           | Inr a \<Rightarrow> Inr (a\<lparr>any_typeUrl := u\<rparr>)))"
  by (simp add: packAny_JStr packAny_JNum packAny_JBool packAny_structured or_default_None
        packAny_override)

theorem packAny_branch_selection_witness:
  "structured (JObj [] :: int option jsval)
   \<and> JSON_stringify example_runtime (JObj []) = Some (lit ''{}'')
   \<and> packAny example_runtime (JObj []) None =
        Inr \<lparr>any_typeUrl = Struct_url, any_value = utf8_encode (lit ''{}'')\<rparr>
   \<and> lit ''my.type/Custom'' \<noteq> []
   \<and> packAny example_runtime (JBool True) (Some (lit ''my.type/Custom'')) =
        Inr \<lparr>any_typeUrl = lit ''my.type/Custom'', any_value = utf8_encode (lit ''true'')\<rparr>"
  using packAny_branch_selection
    [of example_runtime "[]" None True "JObj []" "lit ''{}''" "lit ''my.type/Custom''" "JBool True"]
  by (simp add: JSON_stringify_JObj_Nil lit_def)

text \<open>
  Claim C5, as stated, fails for a \<open>typeUrl\<close> that the caller supplies: the empty object
  packed with the type URL of \<open>StringValue\<close> carries the tag \<open>StringValue\<close>.
\<close>

theorem packAny_object_override_counterexample:
  "packAny example_runtime (JObj []) (Some StringValue_url) =
     Inr \<lparr>any_typeUrl = StringValue_url, any_value = utf8_encode (lit ''{}'')\<rparr>"
  by (simp add: packAny_structured JSON_stringify_JObj_Nil or_default_Some
        StringValue_url_nonempty)

text \<open>
  Claim C5, amended. Packing a plain object with no \<open>typeUrl\<close>, or with the empty one,
  succeeds with the tag \<open>Struct\<close>, which is none of the tags \<open>StringValue\<close>,
  \<open>DoubleValue\<close>, \<open>BoolValue\<close> and contains none of these markers.
\<close>

theorem packAny_object_tag:
  "\<exists>a. packAny rt (JObj ps) None = Inr a
     \<and> packAny rt (JObj ps) (Some []) = Inr a
     \<and> any_typeUrl a = Struct_url
     \<and> any_typeUrl a \<noteq> StringValue_url
     \<and> any_typeUrl a \<noteq> DoubleValue_url
     \<and> any_typeUrl a \<noteq> BoolValue_url
     \<and> \<not> str_includes (any_typeUrl a) (lit ''StringValue'')
     \<and> \<not> str_includes (any_typeUrl a) (lit ''DoubleValue'')
     \<and> \<not> str_includes (any_typeUrl a) (lit ''BoolValue'')"
proof -
  obtain json where t: "JSON_stringify rt (JObj ps) = Some json"
    using JSON_stringify_JObj by blast
  let ?a = "\<lparr>any_typeUrl = Struct_url, any_value = utf8_encode json\<rparr>"
  have "packAny rt (JObj ps) None = Inr ?a"
    by (simp add: packAny_structured t or_default_None)
  moreover have "packAny rt (JObj ps) (Some []) = Inr ?a"
    by (simp add: packAny_structured t or_default_empty)
  ultimately show ?thesis
    using Struct_url_markers Struct_url_distinct by auto
qed

text \<open>
  Claim C4. \<open>unpackAny\<close> looks for the markers \<open>StringValue\<close>, \<open>DoubleValue\<close>,
  \<open>BoolValue\<close>, \<open>Struct\<close> as substrings of the tag, in this order, and the first one found
  decides: the decoded text itself, \<open>parseFloat\<close> of it, whether it equals \<open>true\<close>, or
  \<open>JSON.parse\<close> of it; with no marker in the tag the decoded text is returned as a string.
\<close>

theorem unpackAny_dispatch:
  "unpackAny rt a =
     (if sublist (lit ''StringValue'') (any_typeUrl a)
        then Inr (JStr (utf8_decode (any_value a)))
      else if sublist (lit ''DoubleValue'') (any_typeUrl a)
        then Inr (JNum (parseFloat rt (utf8_decode (any_value a))))
      else if sublist (lit ''BoolValue'') (any_typeUrl a)
        then Inr (JBool (utf8_decode (any_value a) = lit ''true''))
      else if sublist (lit ''Struct'') (any_typeUrl a)
        then JSON_parse rt (utf8_decode (any_value a))
      else Inr (JStr (utf8_decode (any_value a))))"
  by (simp add: unpackAny_def Let_def str_includes_iff_sublist)

theorem unpackAny_dispatch_witness:
  "unpackAny example_runtime
     \<lparr>any_typeUrl = lit ''my.Struct/StringValue'', any_value = utf8_encode (lit ''{'')\<rparr>
     = Inr (JStr (lit ''{''))
   \<and> unpackAny example_runtime
     \<lparr>any_typeUrl = lit ''custom.Type'', any_value = utf8_encode (lit ''{'')\<rparr>
     = Inr (JStr (lit ''{''))"
proof -
  have a: "sublist (lit ''StringValue'') (lit ''my.Struct/StringValue'')"
    by (simp add: str_includes_iff_sublist [symmetric] lit_def)
  have b: "\<not> sublist (lit ''StringValue'') (lit ''custom.Type'')"
    "\<not> sublist (lit ''DoubleValue'') (lit ''custom.Type'')"
    "\<not> sublist (lit ''BoolValue'') (lit ''custom.Type'')"
    "\<not> sublist (lit ''Struct'') (lit ''custom.Type'')"
    by (simp_all add: str_includes_iff_sublist [symmetric] lit_def)
  show ?thesis
    using unpackAny_dispatch [of example_runtime
        "\<lparr>any_typeUrl = lit ''my.Struct/StringValue'', any_value = utf8_encode (lit ''{'')\<rparr>"]
      unpackAny_dispatch [of example_runtime
        "\<lparr>any_typeUrl = lit ''custom.Type'', any_value = utf8_encode (lit ''{'')\<rparr>"]
    by (simp add: a b utf8_round_trip_lit)
qed

subsection \<open>Round trip\<close>

lemma round_trip_JNum:
  "round_trip rt (JNum n) = Inr (JNum (parseFloat rt (lit (num_toString rt n))))"
  by (simp add: round_trip_def packAny_JNum or_default_None unpackAny_def
        DoubleValue_url_markers utf8_round_trip_lit)

lemma lit_false_neq_true: "lit ''false'' \<noteq> lit ''true''"
  by (simp add: lit_def)

lemma round_trip_JBool: "round_trip rt (JBool b) = Inr (JBool b)"
  by (simp add: round_trip_def packAny_JBool or_default_None unpackAny_def
        BoolValue_url_markers utf8_round_trip_lit lit_false_neq_true)

lemma round_trip_structured:
  assumes "structured v" "JSON_stringify rt v = Some json"
  shows "round_trip rt v = JSON_parse rt json"
  using assms well_formed_JSON_stringify [OF assms(2)]
  by (simp add: round_trip_def packAny_structured or_default_None unpackAny_def
        Struct_url_markers utf8_round_trip)

lemma round_trip_unserializable:
  assumes "structured v" "JSON_stringify rt v = None"
  shows "round_trip rt v = Inl Buffer_from_undefined"
  using assms by (simp add: round_trip_def packAny_structured)

text \<open>
  Claim C1, as stated, fails for strings: a string that holds a surrogate without its
  partner does not come back, because UTF-8 has no bytes for it and the encoder writes
  U+FFFD in its place.
\<close>

theorem round_trip_lone_surrogate_counterexample:
  "round_trip example_runtime (JStr [0xD800]) \<noteq> Inr (JStr [0xD800])"
proof -
  have "utf8_decode (utf8_encode [0xD800]) = [0xFFFD]"
    by (simp add: is_surrogate_def in_range_def code_units_of_def utf8_decode.simps)
  then show ?thesis
    by (simp add: round_trip_def packAny_JStr or_default_None unpackAny_def
          StringValue_url_markers)
qed

lemma round_trip_string: "round_trip rt (JStr s) = Inr (JStr (toWellFormed s))"
  by (simp add: round_trip_def packAny_JStr or_default_None unpackAny_def
        StringValue_url_markers utf8_decode_encode)

text \<open>
  Claim C1, amended. With no \<open>typeUrl\<close>, \<open>unpackAny(packAny(v))\<close> gives \<open>v\<close> back for every
  string in which each surrogate is part of a pair (and for no other string: the string
  that comes back is \<open>s.toWellFormed()\<close>), for every number whose decimal text
  \<open>parseFloat\<close> reads back as that number (the number that comes back is \<open>parseFloat\<close> of
  the decimal text), for both booleans, and for every other value that has a JSON
  serialization which \<open>JSON.parse\<close> reads back as that value (what comes back is
  \<open>JSON.parse\<close> of the serialization).
\<close>

theorem codec_round_trip:
  "round_trip rt (JStr s) = Inr (JStr (toWellFormed s))
   \<and> (round_trip rt (JStr s) = Inr (JStr s) \<longleftrightarrow> well_formed s)
   \<and> round_trip rt (JNum n) = Inr (JNum (parseFloat rt (lit (num_toString rt n))))
   \<and> (parseFloat rt (lit (num_toString rt n)) = n \<longrightarrow> round_trip rt (JNum n) = Inr (JNum n))
   \<and> round_trip rt (JBool b) = Inr (JBool b)
   \<and> (structured v \<and> JSON_stringify rt v = Some json \<longrightarrow>
        round_trip rt v = JSON_parse rt json)
   \<and> (structured v \<and> JSON_stringify rt v = Some json \<and> JSON_parse rt json = Inr v \<longrightarrow>
        round_trip rt v = Inr v)"
  by (simp add: round_trip_string toWellFormed_fixed round_trip_JNum round_trip_JBool
        round_trip_structured)

lemma example_stringify:
  "JSON_stringify example_runtime (JArr [JBool True, JNull]) = Some (lit ''[true,null]'')"
  by (simp add: JSON_stringify_def wrap_members_def lit_def)

lemma example_number: "parseFloat example_runtime (lit (num_toString example_runtime (Some 42))) = Some 42"
  by (simp add: example_runtime_def int_toString_def decimal.simps [of 42] decimal.simps [of 4]
        digit_char_def lit_def int_prefix_def is_white_space_def is_digit_def digit_value_def
        digits_value_def)

theorem codec_round_trip_witness:
  "well_formed [0x68, 0xE9, 0xD83D, 0xDE00]
   \<and> round_trip example_runtime (JStr [0x68, 0xE9, 0xD83D, 0xDE00])
        = Inr (JStr [0x68, 0xE9, 0xD83D, 0xDE00])
   \<and> parseFloat example_runtime (lit (num_toString example_runtime (Some 42))) = Some 42
   \<and> round_trip example_runtime (JNum (Some 42)) = Inr (JNum (Some 42))
   \<and> round_trip example_runtime (JBool False) = Inr (JBool False)
   \<and> structured (JArr [JBool True, JNull] :: int option jsval)
   \<and> JSON_stringify example_runtime (JArr [JBool True, JNull]) = Some (lit ''[true,null]'')
   \<and> JSON_parse example_runtime (lit ''[true,null]'') = Inr (JArr [JBool True, JNull])
   \<and> round_trip example_runtime (JArr [JBool True, JNull]) = Inr (JArr [JBool True, JNull])"
proof -
  have w: "well_formed [0x68, 0xE9, 0xD83D, 0xDE00]"
    by (simp add: is_surrogate_def is_high_surrogate_def is_low_surrogate_def)
  have p: "JSON_parse example_runtime (lit ''[true,null]'') = Inr (JArr [JBool True, JNull])"
    by (simp add: example_runtime_def known_json_def lit_def)
  have st: "structured (JArr [JBool True, JNull] :: int option jsval)"
    by simp
  note t = codec_round_trip [where rt = example_runtime and s = "[0x68, 0xE9, 0xD83D, 0xDE00]"
      and n = "Some 42" and b = False and v = "JArr [JBool True, JNull]"
      and json = "lit ''[true,null]''"]
  have 1: "round_trip example_runtime (JStr [0x68, 0xE9, 0xD83D, 0xDE00])
        = Inr (JStr [0x68, 0xE9, 0xD83D, 0xDE00])"
    using t w by blast
  have 2: "round_trip example_runtime (JNum (Some 42)) = Inr (JNum (Some 42))"
    using t example_number by blast
  have 3: "round_trip example_runtime (JBool False) = Inr (JBool False)"
    using t by blast
  have 4: "round_trip example_runtime (JArr [JBool True, JNull])
        = Inr (JArr [JBool True, JNull])"
    using t st example_stringify p by blast
  from w 1 example_number 2 3 st example_stringify p 4 show ?thesis
    by blast
qed


section \<open>Properties of the dispatcher\<close>

text \<open>
  Claim C6. When the contract's \<open>execute\<close> resolves, \<open>handleExecute\<close> gives the response
  to the callback as it is. When it throws or rejects, \<open>handleExecute\<close> still resolves,
  and the callback gets one error with the code \<open>INTERNAL\<close> (13) whose message is the
  message of the error when the error is an instance of \<open>Error\<close>, and \<open>Unknown error\<close>
  otherwise.
\<close>

theorem handleExecute_contains_failure:
  "(executer (call_request call) = Resolved response \<longrightarrow>
      callbacks (handleExecute executer call) = [SendData response]
      \<and> settled (handleExecute executer call) = Resolved ())
   \<and> (executer (call_request call) = Rejected error \<longrightarrow>
      settled (handleExecute executer call) = Resolved ()
      \<and> callbacks (handleExecute executer call) =
          [SendError \<lparr>code = 13,
                      message = (case error of
                                   ErrorObject msg \<Rightarrow> msg
                                 | NonError x \<Rightarrow> lit ''Unknown error'')\<rparr>])"
  by (simp add: handleExecute_def grpc_status_INTERNAL_def error_description_def)

theorem handleExecute_contains_failure_witness:
  "(\<lambda>r. Resolved \<lparr>result = lit ''ok''\<rparr> :: (ExecutionResponse, int option thrown) promise)
      \<lparr>args = None, options = None, input = lit ''hello''\<rparr> = Resolved \<lparr>result = lit ''ok''\<rparr>
   \<and> callbacks (handleExecute
        (\<lambda>r. Resolved \<lparr>result = lit ''ok''\<rparr> :: (ExecutionResponse, int option thrown) promise)
        \<lparr>call_request = \<lparr>args = None, options = None, input = lit ''hello''\<rparr>\<rparr>)
      = [SendData \<lparr>result = lit ''ok''\<rparr>]
   \<and> (\<lambda>r. Rejected (ErrorObject (lit ''boom'')) :: (ExecutionResponse, int option thrown) promise)
      \<lparr>args = None, options = None, input = lit ''hello''\<rparr> = Rejected (ErrorObject (lit ''boom''))
   \<and> settled (handleExecute
        (\<lambda>r. Rejected (ErrorObject (lit ''boom'')) :: (ExecutionResponse, int option thrown) promise)
        \<lparr>call_request = \<lparr>args = None, options = None, input = lit ''hello''\<rparr>\<rparr>)
      = Resolved ()
   \<and> callbacks (handleExecute
        (\<lambda>r. Rejected (ErrorObject (lit ''boom'')) :: (ExecutionResponse, int option thrown) promise)
        \<lparr>call_request = \<lparr>args = None, options = None, input = lit ''hello''\<rparr>\<rparr>)
      = [SendError \<lparr>code = 13, message = lit ''boom''\<rparr>]
   \<and> callbacks (handleExecute
        (\<lambda>r. Rejected (NonError (JStr (lit ''boom''))) :: (ExecutionResponse, int option thrown) promise)
        \<lparr>call_request = \<lparr>args = None, options = None, input = lit ''hello''\<rparr>\<rparr>)
      = [SendError \<lparr>code = 13, message = lit ''Unknown error''\<rparr>]"
  using handleExecute_contains_failure
      [of "\<lambda>r. Resolved \<lparr>result = lit ''ok''\<rparr> :: (ExecutionResponse, int option thrown) promise"
          "\<lparr>call_request = \<lparr>args = None, options = None, input = lit ''hello''\<rparr>\<rparr>"
          "\<lparr>result = lit ''ok''\<rparr>" "ErrorObject []"]
    handleExecute_contains_failure
      [of "\<lambda>r. Rejected (ErrorObject (lit ''boom'')) :: (ExecutionResponse, int option thrown) promise"
          "\<lparr>call_request = \<lparr>args = None, options = None, input = lit ''hello''\<rparr>\<rparr>"
          "\<lparr>result = []\<rparr>" "ErrorObject (lit ''boom'')"]
    handleExecute_contains_failure
      [of "\<lambda>r. Rejected (NonError (JStr (lit ''boom''))) :: (ExecutionResponse, int option thrown) promise"
          "\<lparr>call_request = \<lparr>args = None, options = None, input = lit ''hello''\<rparr>\<rparr>"
          "\<lparr>result = []\<rparr>" "NonError (JStr (lit ''boom''))"]
  by simp

section \<open>Properties of the example contract\<close>

lemma unpack_packed_string:
  "unpackAny rt \<lparr>any_typeUrl = StringValue_url, any_value = utf8_encode (lit s)\<rparr> = Inr (JStr (lit s))"
  by (simp add: unpackAny_def StringValue_url_markers utf8_round_trip_lit)

lemma quote_op: "QuoteJSONString (lit ''op'') = [0x22] @ lit ''op'' @ [0x22]"
  by (simp add: QuoteJSONString_def lit_def quote_unit_def is_surrogate_def
        is_high_surrogate_def)

lemma quote_reverse: "QuoteJSONString (lit ''reverse'') = [0x22] @ lit ''reverse'' @ [0x22]"
  by (simp add: QuoteJSONString_def lit_def quote_unit_def is_surrogate_def
        is_high_surrogate_def)

lemma stringify_op:
  "JSON_stringify_2 rt (JObj [(lit ''op'', JStr (lit ''reverse''))]) =
     Some (lit ''{'' @ [0x0A] @ lit ''  '' @ [0x22] @ lit ''op'' @ [0x22] @ lit '': ''
            @ [0x22] @ lit ''reverse'' @ [0x22, 0x0A] @ lit ''}'')"
  by (simp add: JSON_stringify_2_def wrap_members_def quote_op quote_reverse) (simp add: lit_def)

lemma execute_op:
  "execute example_runtime
     \<lparr>args = Some [],
      options = Some [(lit ''op'', \<lparr>any_typeUrl = StringValue_url,
                                    any_value = utf8_encode (lit ''reverse'')\<rparr>)],
      input = lit ''hello''\<rparr> =
   Resolved \<lparr>result = lit ''Input processed: '' @ [0x22] @ lit ''hello'' @ [0x22, 0x0A]
     @ lit ''Options: {'' @ [0x0A] @ lit ''  '' @ [0x22] @ lit ''op'' @ [0x22] @ lit '': ''
     @ [0x22] @ lit ''reverse'' @ [0x22, 0x0A] @ lit ''}'' @ [0x0A]
     @ lit ''Transformed output: '' @ [0x22] @ lit ''HELLO'' @ [0x22]\<rparr>"
proof -
  have k: "lit ''op'' \<noteq> lit ''__proto__''" "lit ''operation'' \<noteq> lit ''op''"
    "lit ''reverse'' \<noteq> []"
    by (simp_all add: lit_def)
  have u: "toUpperCase example_runtime (lit ''hello'') = lit ''HELLO''"
    by (simp add: example_runtime_def ascii_upper_def lit_def)
  have t: "transform example_runtime (JStr (lit ''uppercase'')) (lit ''hello'') = lit ''HELLO''"
    by (simp add: transform_def u)
  show ?thesis
    by (simp add: execute_def execute_body_def entries_def empty_object_def
          unpack_packed_string assign_def k get_prop_def stringify_op template_text_def t
          lit_append [symmetric])
qed

lemma no_olleh:
  "\<not> str_includes (lit ''Input processed: '' @ [0x22] @ lit ''hello'' @ [0x22, 0x0A]
     @ lit ''Options: {'' @ [0x0A] @ lit ''  '' @ [0x22] @ lit ''op'' @ [0x22] @ lit '': ''
     @ [0x22] @ lit ''reverse'' @ [0x22, 0x0A] @ lit ''}'' @ [0x0A]
     @ lit ''Transformed output: '' @ [0x22] @ lit ''HELLO'' @ [0x22]) (lit ''olleh'')"
  by (simp add: lit_def)

text \<open>
  Claim C2, as stated, fails: the contract reads the option \<open>operation\<close>, not \<open>op\<close>. With
  \<open>op\<close> the operation is the default \<open>uppercase\<close>, and \<open>olleh\<close> occurs nowhere in the
  result, which is printed here in full.
\<close>

theorem execute_op_reverse_counterexample:
  "packAny example_runtime (JStr (lit ''reverse'')) None =
     Inr \<lparr>any_typeUrl = StringValue_url, any_value = utf8_encode (lit ''reverse'')\<rparr>
   \<and> execute example_runtime
       \<lparr>args = Some [],
        options = Some [(lit ''op'', \<lparr>any_typeUrl = StringValue_url,
                                      any_value = utf8_encode (lit ''reverse'')\<rparr>)],
        input = lit ''hello''\<rparr> =
     Resolved \<lparr>result = lit ''Input processed: '' @ [0x22] @ lit ''hello'' @ [0x22, 0x0A]
       @ lit ''Options: {'' @ [0x0A] @ lit ''  '' @ [0x22] @ lit ''op'' @ [0x22] @ lit '': ''
       @ [0x22] @ lit ''reverse'' @ [0x22, 0x0A] @ lit ''}'' @ [0x0A]
       @ lit ''Transformed output: '' @ [0x22] @ lit ''HELLO'' @ [0x22]\<rparr>
   \<and> \<not> str_includes (lit ''Input processed: '' @ [0x22] @ lit ''hello'' @ [0x22, 0x0A]
       @ lit ''Options: {'' @ [0x0A] @ lit ''  '' @ [0x22] @ lit ''op'' @ [0x22] @ lit '': ''
       @ [0x22] @ lit ''reverse'' @ [0x22, 0x0A] @ lit ''}'' @ [0x0A]
       @ lit ''Transformed output: '' @ [0x22] @ lit ''HELLO'' @ [0x22]) (lit ''olleh'')"
  using execute_op no_olleh by (simp add: packAny_JStr or_default_None)

lemma execute_operation_reverse_result:
  "\<exists>pre. execute rt
     \<lparr>args = Some [],
      options = Some [(lit ''operation'', \<lparr>any_typeUrl = StringValue_url,
                                           any_value = utf8_encode (lit ''reverse'')\<rparr>)],
      input = inp\<rparr> =
   Resolved \<lparr>result = pre @ lit ''Transformed output: '' @ [0x22] @ rev inp @ [0x22]\<rparr>"
proof -
  have k: "lit ''operation'' \<noteq> lit ''__proto__''" "lit ''reverse'' \<noteq> []"
    "lit ''reverse'' \<noteq> lit ''uppercase''" "lit ''reverse'' \<noteq> lit ''lowercase''"
    by (simp_all add: lit_def)
  have t: "transform rt (JStr (lit ''reverse'')) inp = rev inp"
    by (simp add: transform_def k)
  show ?thesis
    by (simp add: execute_def execute_body_def entries_def empty_object_def
          unpack_packed_string assign_def k get_prop_def t Let_def)
qed

text \<open>
  Claim C2, amended. For the request with the input \<open>hello\<close>, no arguments and the
  options \<open>{operation: packAny("reverse")}\<close>, \<open>MyCustomPlugin.execute\<close> resolves with a
  result that contains \<open>olleh\<close>.
\<close>

theorem execute_operation_reverse:
  "packAny rt (JStr (lit ''reverse'')) None =
     Inr \<lparr>any_typeUrl = StringValue_url, any_value = utf8_encode (lit ''reverse'')\<rparr>
   \<and> (\<exists>response.
        execute rt
          \<lparr>args = Some [],
           options = Some [(lit ''operation'', \<lparr>any_typeUrl = StringValue_url,
                                                any_value = utf8_encode (lit ''reverse'')\<rparr>)],
           input = lit ''hello''\<rparr> = Resolved response
        \<and> str_includes (result response) (lit ''olleh''))"
proof -
  obtain pre where e: "execute rt
     \<lparr>args = Some [],
      options = Some [(lit ''operation'', \<lparr>any_typeUrl = StringValue_url,
                                           any_value = utf8_encode (lit ''reverse'')\<rparr>)],
      input = lit ''hello''\<rparr> =
   Resolved \<lparr>result = pre @ lit ''Transformed output: '' @ [0x22] @ rev (lit ''hello'') @ [0x22]\<rparr>"
    using execute_operation_reverse_result by blast
  have r: "rev (lit ''hello'') = lit ''olleh''" by (simp add: lit_def)
  have "sublist (lit ''olleh'')
     ((pre @ lit ''Transformed output: '' @ [0x22]) @ lit ''olleh'' @ [0x22])"
    by (rule sublist_appendI)
  then have "str_includes (pre @ lit ''Transformed output: '' @ [0x22] @ lit ''olleh'' @ [0x22])
     (lit ''olleh'')"
    by (simp add: str_includes_iff_sublist)
  then show ?thesis using e by (simp add: r packAny_JStr or_default_None)
qed

lemma unpack_entries_fails:
  "(k, a) \<in> set es \<Longrightarrow> unpackAny rt a = Inl e \<Longrightarrow> \<exists>e'. unpack_entries rt es obj = Inl e'"
proof (induction es arbitrary: obj)
  case Nil
  then show ?case by simp
next
  case (Cons x es)
  obtain k' a' where x: "x = (k', a')" by (cases x)
  show ?case
  proof (cases "unpackAny rt a'")
    case (Inl e0)
    then show ?thesis by (simp add: x)
  next
    case (Inr v)
    with Cons x have "(k, a) \<in> set es" by auto
    then show ?thesis using Cons.IH Cons.prems(2) Inr by (simp add: x)
  qed
qed

lemma execute_body_fails:
  assumes "(k, a) \<in> set (entries (args request) @ entries (options request))"
    and "unpackAny rt a = Inl e"
  shows "\<exists>e'. execute_body rt request = Inl e'"
proof (cases "unpack_entries rt (entries (args request)) empty_object")
  case (Inl e0)
  then show ?thesis by (simp add: execute_body_def)
next
  case (Inr args')
  then have "(k, a) \<notin> set (entries (args request))"
    using unpack_entries_fails [OF _ assms(2), of k "entries (args request)" empty_object]
    by auto
  then have "(k, a) \<in> set (entries (options request))" using assms(1) by simp
  then obtain e' where "unpack_entries rt (entries (options request)) empty_object = Inl e'"
    using unpack_entries_fails [OF _ assms(2)] by blast
  then show ?thesis using Inr by (simp add: execute_body_def)
qed

text \<open>
  Claim C10. \<open>MyCustomPlugin.execute\<close> never rejects: it resolves with a response for
  every request. When its \<open>try\<close> block throws, the result is \<open>Error: \<close> followed by the
  message of the error, if the error is an instance of \<open>Error\<close>, and by \<open>Unknown error\<close>
  otherwise; and the block does throw when an entry of \<open>args\<close> or \<open>options\<close> cannot be
  unpacked.
\<close>

theorem execute_never_rejects:
  "\<exists>response. execute rt request = Resolved response
     \<and> (\<forall>e. execute_body rt request = Inl e \<longrightarrow>
           result response = lit ''Error: '' @ error_description e
           \<and> (error_description e = lit ''Unknown error'' \<or> e = ErrorObject (error_description e)))
     \<and> ((\<exists>key a e. (key, a) \<in> set (entries (args request) @ entries (options request))
                   \<and> unpackAny rt a = Inl e)
          \<longrightarrow> (\<exists>e. execute_body rt request = Inl e))"
proof (cases "execute_body rt request")
  case (Inl e)
  have "error_description e = lit ''Unknown error'' \<or> e = ErrorObject (error_description e)"
    by (cases e) (simp_all add: error_description_def)
  then show ?thesis using Inl by (simp add: execute_def)
next
  case (Inr r)
  then show ?thesis using execute_body_fails [of _ _ request rt] 
    by (fastforce simp: execute_def)
qed

lemma unpack_malformed:
  "unpackAny example_runtime \<lparr>any_typeUrl = Struct_url, any_value = utf8_encode (lit ''{'')\<rparr>
     = Inl (ErrorObject (lit ''Unexpected token''))"
proof -
  have "JSON_parse example_runtime (lit ''{'') = Inl (ErrorObject (lit ''Unexpected token''))"
    by (simp add: example_runtime_def known_json_def lit_def)
  then show ?thesis
    by (simp add: unpackAny_def Struct_url_markers utf8_round_trip_lit)
qed

theorem execute_never_rejects_witness:
  "(lit ''x'', \<lparr>any_typeUrl = Struct_url, any_value = utf8_encode (lit ''{'')\<rparr>)
     \<in> set (entries (args \<lparr>args = Some [(lit ''x'', \<lparr>any_typeUrl = Struct_url,
                                  any_value = utf8_encode (lit ''{'')\<rparr>)],
                            options = None, input = lit ''hello''\<rparr>)
           @ entries (options \<lparr>args = Some [(lit ''x'', \<lparr>any_typeUrl = Struct_url,
                                  any_value = utf8_encode (lit ''{'')\<rparr>)],
                            options = None, input = lit ''hello''\<rparr>))
   \<and> unpackAny example_runtime \<lparr>any_typeUrl = Struct_url, any_value = utf8_encode (lit ''{'')\<rparr>
       = Inl (ErrorObject (lit ''Unexpected token''))
   \<and> execute_body example_runtime
        \<lparr>args = Some [(lit ''x'', \<lparr>any_typeUrl = Struct_url,
                                  any_value = utf8_encode (lit ''{'')\<rparr>)],
         options = None, input = lit ''hello''\<rparr> = Inl (ErrorObject (lit ''Unexpected token''))
   \<and> execute example_runtime
        \<lparr>args = Some [(lit ''x'', \<lparr>any_typeUrl = Struct_url,
                                  any_value = utf8_encode (lit ''{'')\<rparr>)],
         options = None, input = lit ''hello''\<rparr>
       = Resolved \<lparr>result = lit ''Error: Unexpected token''\<rparr>"
proof -
  let ?req = "\<lparr>args = Some [(lit ''x'', \<lparr>any_typeUrl = Struct_url,
                                  any_value = utf8_encode (lit ''{'')\<rparr>)],
         options = None, input = lit ''hello''\<rparr>"
  have b: "execute_body example_runtime ?req = Inl (ErrorObject (lit ''Unexpected token''))"
    by (simp add: execute_body_def entries_def unpack_malformed)
  have d: "error_description (ErrorObject (lit ''Unexpected token'') :: int option thrown)
     = lit ''Unexpected token''"
    by (simp add: error_description_def)
  show ?thesis
    using execute_never_rejects [of example_runtime ?req] b unpack_malformed
    by (auto simp: entries_def d lit_append [symmetric])
qed

section \<open>Properties of the process\<close>

lemma main_start_ok:
  assumes "bindAsync (bind_address rt (requested_port rt PLUGIN_PORT)) = Inr assignedPort"
  shows "main_start rt PLUGIN_PORT bindAsync initial_process =
    \<lparr>trace = [Bind (bind_address rt (requested_port rt PLUGIN_PORT)),
              Stdout (lit ''Plugin server started on port '' @ lit (num_toString rt assignedPort)),
              Stdout (lit ''PLUGIN_PORT='' @ lit (num_toString rt assignedPort)),
              Listen SIGTERM, Listen SIGINT],
     ended = None\<rparr>"
  using assms by (simp add: main_start_def server_start_def emit_def initial_process_def)

lemma main_start_failed:
  assumes "bindAsync (bind_address rt (requested_port rt PLUGIN_PORT)) = Inl err"
  shows "main_start rt PLUGIN_PORT bindAsync initial_process =
    \<lparr>trace = [Bind (bind_address rt (requested_port rt PLUGIN_PORT)),
              Stderr (lit ''Failed to start plugin:'') err, Exit 1],
     ended = Some (Exited 1)\<rparr>"
  using assms
  by (simp add: main_start_def server_start_def emit_def process_exit_def initial_process_def)

lemma main_start_bind_calls:
  "bind_calls (trace (main_start rt PLUGIN_PORT bindAsync initial_process)) =
     [bind_address rt (requested_port rt PLUGIN_PORT)]"
  by (cases "bindAsync (bind_address rt (requested_port rt PLUGIN_PORT))")
     (simp_all add: main_start_ok main_start_failed)

lemma started_line_not_handshake:
  "\<not> prefix (lit ''PLUGIN_PORT='') (lit ''Plugin server started on port '' @ x)"
  by (simp add: lit_def)

lemma parse_abc: "parse_integer (lit ''abc'') = None"
  by (simp add: parse_integer_def lit_def is_white_space_def is_digit_def digit_value_def)

text \<open>
  Claim C7, as stated, fails where it says that port 0 is requested whenever
  \<open>PLUGIN_PORT\<close> is not a parseable integer: for \<open>abc\<close> the port is \<open>NaN\<close>, and the
  address given to the transport is \<open>localhost:NaN\<close>.
\<close>

theorem unparseable_port_counterexample:
  "parse_integer (lit ''abc'') = None
   \<and> bind_calls (trace (main_start example_runtime (Some (lit ''abc''))
        (\<lambda>address. Inl (ErrorObject (lit ''bind failed''))) initial_process)) =
      [lit ''localhost:NaN'']
   \<and> lit ''localhost:NaN'' \<noteq> lit ''localhost:0''"
proof -
  have "lit ''abc'' \<noteq> []" by (simp add: lit_def)
  then have "requested_port example_runtime (Some (lit ''abc'')) = None"
    by (simp add: requested_port_def parseInt_def parse_abc example_runtime_def)
  then have "bind_address example_runtime (requested_port example_runtime (Some (lit ''abc'')))
    = lit ''localhost:NaN''"
    by (simp add: bind_address_def example_runtime_def int_toString_def lit_def)
  moreover have "lit ''localhost:NaN'' \<noteq> lit ''localhost:0''" by (simp add: lit_def)
  ultimately show ?thesis by (simp add: main_start_bind_calls parse_abc)
qed

text \<open>
  Claim C7, amended. Started with \<open>PLUGIN_PORT\<close> set to a non-empty string that
  \<open>parseInt\<close> reads as an integer, \<open>PluginMain.start\<close> asks the transport for that port;
  with \<open>PLUGIN_PORT\<close> unset or empty it asks for port 0. After a successful bind,
  exactly one line of standard output has the form \<open>PLUGIN_PORT=...\<close>, and it carries the
  assigned port.
\<close>

theorem main_start_port_handshake:
  "(PLUGIN_PORT = Some s \<and> s \<noteq> [] \<and> parse_integer s = Some k \<longrightarrow>
      bind_calls (trace (main_start rt PLUGIN_PORT bindAsync initial_process)) =
        [lit ''localhost:'' @ lit (num_toString rt (num_of_int rt k))])
   \<and> (PLUGIN_PORT = None \<or> PLUGIN_PORT = Some [] \<longrightarrow>
      bind_calls (trace (main_start rt PLUGIN_PORT bindAsync initial_process)) =
        [lit ''localhost:'' @ lit (num_toString rt (num_of_int rt 0))])
   \<and> (bindAsync (bind_address rt (requested_port rt PLUGIN_PORT)) = Inr assignedPort \<longrightarrow>
      filter (prefix (lit ''PLUGIN_PORT=''))
        (stdout_lines (trace (main_start rt PLUGIN_PORT bindAsync initial_process))) =
        [lit ''PLUGIN_PORT='' @ lit (num_toString rt assignedPort)])"
  by (auto simp: main_start_bind_calls bind_address_def requested_port_def parseInt_def
        main_start_ok started_line_not_handshake)

lemma parse_5005: "parse_integer (lit ''5005'') = Some 5005"
  by (simp add: parse_integer_def lit_def is_white_space_def is_digit_def digit_value_def
        digits_value_def)

lemma decimal_5005: "decimal 5005 = ''5005''"
  by (simp add: decimal.simps [of 5005] decimal.simps [of 500] decimal.simps [of 50]
        decimal.simps [of 5] digit_char_def)

lemma decimal_0: "decimal 0 = ''0''"
  by (simp add: decimal.simps [of 0] digit_char_def)

theorem main_start_port_handshake_witness:
  "Some (lit ''5005'') = Some (lit ''5005'') \<and> lit ''5005'' \<noteq> []
   \<and> parse_integer (lit ''5005'') = Some 5005
   \<and> bind_calls (trace (main_start example_runtime (Some (lit ''5005''))
        (\<lambda>address. Inr (Some 5005)) initial_process)) = [lit ''localhost:5005'']
   \<and> bind_calls (trace (main_start example_runtime None
        (\<lambda>address. Inr (Some 40123)) initial_process)) = [lit ''localhost:0'']
   \<and> filter (prefix (lit ''PLUGIN_PORT=''))
        (stdout_lines (trace (main_start example_runtime (Some (lit ''5005''))
           (\<lambda>address. Inr (Some 5005)) initial_process))) = [lit ''PLUGIN_PORT=5005'']"
proof -
  have n: "lit ''5005'' \<noteq> []" by (simp add: lit_def)
  have t: "num_toString example_runtime (num_of_int example_runtime 5005) = ''5005''"
    "num_toString example_runtime (num_of_int example_runtime 0) = ''0''"
    "num_toString example_runtime (Some 5005) = ''5005''"
    by (simp_all add: example_runtime_def int_toString_def decimal_5005 decimal_0)
  show ?thesis
    using main_start_port_handshake [of "Some (lit ''5005'')" "lit ''5005''" 5005 example_runtime
        "\<lambda>address. Inr (Some 5005)" "Some 5005"]
      main_start_port_handshake [of None "[]" 0 example_runtime
        "\<lambda>address. Inr (Some 40123)" "Some 40123"]
    by (simp add: n parse_5005 t lit_append [symmetric])
qed

text \<open>
  Claim C8, as stated, fails for a signal that arrives before the listeners are
  registered, which \<open>PluginMain.start\<close> does only after the bind has succeeded: while the
  call of \<open>bindAsync\<close> is pending, \<open>SIGTERM\<close> ends the process with no \<open>stop()\<close> and no
  \<open>process.exit(0)\<close>.
\<close>

theorem signal_before_listeners_counterexample:
  "receive_signal SIGTERM
     (emit (Bind (lit ''localhost:0'')) (initial_process :: int option process)) =
   \<lparr>trace = [Bind (lit ''localhost:0'')], ended = Some (Terminated SIGTERM)\<rparr>"
  by (simp add: receive_signal_def emit_def initial_process_def)

text \<open>
  Claim C8, amended. Once \<open>PluginMain.start\<close> has bound the server, each of \<open>SIGTERM\<close>
  and \<open>SIGINT\<close> makes the process write a line, stop the server and exit with status 0,
  in this order. When the bind fails, the process exits with status 1 after one call of
  \<open>bindAsync\<close>.
\<close>

theorem shutdown_and_exit_codes:
  "(bindAsync (bind_address rt (requested_port rt PLUGIN_PORT)) = Inr assignedPort \<longrightarrow>
      ended (main_start rt PLUGIN_PORT bindAsync initial_process) = None
      \<and> (\<exists>line. trace (receive_signal sig (main_start rt PLUGIN_PORT bindAsync initial_process)) =
            trace (main_start rt PLUGIN_PORT bindAsync initial_process)
              @ [Stdout line, ForceShutdown, Exit 0])
      \<and> ended (receive_signal sig (main_start rt PLUGIN_PORT bindAsync initial_process)) =
            Some (Exited 0))
   \<and> (bindAsync (bind_address rt (requested_port rt PLUGIN_PORT)) = Inl err \<longrightarrow>
      ended (main_start rt PLUGIN_PORT bindAsync initial_process) = Some (Exited 1)
      \<and> bind_calls (trace (main_start rt PLUGIN_PORT bindAsync initial_process)) =
           [bind_address rt (requested_port rt PLUGIN_PORT)]
      \<and> last (trace (main_start rt PLUGIN_PORT bindAsync initial_process)) = Exit 1)"
  by (cases sig)
     (auto simp: main_start_ok main_start_failed receive_signal_def process_exit_def emit_def)

theorem shutdown_and_exit_codes_witness:
  "ended (receive_signal SIGTERM (main_start example_runtime None
       (\<lambda>address. Inr (Some 40123)) initial_process)) = Some (Exited 0)
   \<and> ended (receive_signal SIGINT (main_start example_runtime None
       (\<lambda>address. Inr (Some 40123)) initial_process)) = Some (Exited 0)
   \<and> ended (main_start example_runtime None
       (\<lambda>address. Inl (ErrorObject (lit ''address already in use''))) initial_process)
      = Some (Exited 1)
   \<and> bind_calls (trace (main_start example_runtime None
       (\<lambda>address. Inl (ErrorObject (lit ''address already in use''))) initial_process))
      = [lit ''localhost:0'']"
proof -
  have a: "bind_address example_runtime (requested_port example_runtime None) = lit ''localhost:0''"
    by (simp add: bind_address_def requested_port_def example_runtime_def int_toString_def
          decimal_0 lit_def)
  show ?thesis
    using shutdown_and_exit_codes [where bindAsync = "\<lambda>address. Inr (Some 40123)"
        and rt = example_runtime and PLUGIN_PORT = None and assignedPort = "Some 40123"
        and sig = SIGTERM and err = "ErrorObject []"]
      shutdown_and_exit_codes [where bindAsync = "\<lambda>address. Inr (Some 40123)"
        and rt = example_runtime and PLUGIN_PORT = None and assignedPort = "Some 40123"
        and sig = SIGINT and err = "ErrorObject []"]
      shutdown_and_exit_codes
        [where bindAsync = "\<lambda>address. Inl (ErrorObject (lit ''address already in use''))"
        and rt = example_runtime and PLUGIN_PORT = None and assignedPort = "Some 0"
        and sig = SIGINT and err = "ErrorObject (lit ''address already in use'')"]
    by (simp add: a)
qed

end
